theory Spec2Isabelle
  imports Main
begin

section \<open>Schema of the migration\<close>

text \<open>
  The tables of \<^verbatim>\<open>supabase/migrations/20260130091328_....sql\<close>. A \<^verbatim>\<open>UUID\<close> is a
  natural number, \<^verbatim>\<open>TEXT\<close> a string, a \<^verbatim>\<open>TIMESTAMP WITH TIME ZONE\<close> a count of clock
  ticks, a \<^verbatim>\<open>DATE\<close> a day number and a \<^verbatim>\<open>DECIMAL(10, 2)\<close> a count of hundredths. A column
  without \<^verbatim>\<open>NOT NULL\<close> has an option type, \<open>None\<close> being SQL's \<^verbatim>\<open>NULL\<close>.
\<close>

type_synonym uuid = nat
type_synonym timestamptz = nat
type_synonym date = int
type_synonym decimal = int

text \<open>\<^verbatim>\<open>CREATE TYPE public.app_role AS ENUM ('admin', 'student')\<close>\<close>

datatype app_role = Admin | Student

text \<open>
  The five tables with \<^verbatim>\<open>created_at\<close> and \<^verbatim>\<open>updated_at\<close> extend one record, so that the
  trigger function, which the migration attaches to all five, is one function. The
  primary key column \<^verbatim>\<open>id\<close> is the field \<open>id_col\<close>.
\<close>

record stamped =
  created_at :: timestamptz
  updated_at :: timestamptz

record school = stamped +
  id_col :: uuid
  name :: string
  school_code :: string
  admin_id :: uuid

record profile = stamped +
  id_col :: uuid
  user_id :: uuid
  full_name :: string
  school_code :: "string option"

record user_role =
  id_col :: uuid
  user_id :: uuid
  role :: app_role

text \<open>The columns that \<^verbatim>\<open>scholarships\<close>, \<^verbatim>\<open>fees\<close> and \<^verbatim>\<open>notices\<close> share.\<close>

record resource = stamped +
  id_col :: uuid
  school_code :: string
  title :: string

record scholarship = resource +
  description :: "string option"
  amount :: "decimal option"
  deadline :: "date option"
  eligibility :: "string option"

record fee = resource +
  description :: "string option"
  amount :: decimal
  due_date :: "date option"
  category :: "string option"

record notice = resource +
  content :: string
  priority :: "string option"

record db =
  schools :: "school list"
  profiles :: "profile list"
  user_roles :: "user_role list"
  scholarships :: "scholarship list"
  fees :: "fee list"
  notices :: "notice list"

definition empty_db :: db where
  "empty_db = \<lparr>schools = [], profiles = [], user_roles = [], scholarships = [],
     fees = [], notices = []\<rparr>"


section \<open>SQL's three-valued logic\<close>

text \<open>
  A comparison with \<^verbatim>\<open>NULL\<close> is \<^verbatim>\<open>NULL\<close>; \<^verbatim>\<open>AND\<close> and \<^verbatim>\<open>OR\<close> are Kleene's. A \<^verbatim>\<open>WHERE\<close>
  clause and a policy expression keep a row only when the value is true.
\<close>

definition sql_eq :: "'a option \<Rightarrow> 'a option \<Rightarrow> bool option" where
  "sql_eq a b = (case a of None \<Rightarrow> None
                 | Some x \<Rightarrow> (case b of None \<Rightarrow> None | Some y \<Rightarrow> Some (x = y)))"

definition sql_and :: "bool option \<Rightarrow> bool option \<Rightarrow> bool option" where
  "sql_and a b = (if a = Some False \<or> b = Some False then Some False
                  else if a = Some True \<and> b = Some True then Some True else None)"

definition sql_or :: "bool option \<Rightarrow> bool option \<Rightarrow> bool option" where
  "sql_or a b = (if a = Some True \<or> b = Some True then Some True
                 else if a = Some False \<and> b = Some False then Some False else None)"

definition is_true :: "bool option \<Rightarrow> bool" where
  "is_true b = (b = Some True)"


section \<open>The security definer functions\<close>

text \<open>
  None of the three is \<^verbatim>\<open>STRICT\<close>, so each is evaluated on a \<^verbatim>\<open>NULL\<close> argument too:
  \<^verbatim>\<open>auth.uid()\<close> is \<^verbatim>\<open>NULL\<close> for a request without a session.
\<close>

definition has_role :: "db \<Rightarrow> uuid option \<Rightarrow> app_role option \<Rightarrow> bool" where
  "has_role d p_user_id p_role =
     list_ex (\<lambda>r. is_true (sql_and (sql_eq (Some (user_role.user_id r)) p_user_id)
                                    (sql_eq (Some (role r)) p_role)))
       (user_roles d)"

text \<open>
  A scalar SQL function returns the first row of its query, and \<^verbatim>\<open>NULL\<close> when there
  is none.
\<close>

definition get_user_school_code :: "db \<Rightarrow> uuid option \<Rightarrow> string option" where
  "get_user_school_code d p_user_id =
     (case filter (\<lambda>r. is_true (sql_eq (Some (profile.user_id r)) p_user_id)) (profiles d) of
        [] \<Rightarrow> None
      | r # _ \<Rightarrow> profile.school_code r)"

definition is_school_admin :: "db \<Rightarrow> uuid option \<Rightarrow> string option \<Rightarrow> bool" where
  "is_school_admin d p_user_id p_school_code =
     list_ex (\<lambda>s. is_true (sql_and (sql_eq (Some (admin_id s)) p_user_id)
                                    (sql_eq (Some (school.school_code s)) p_school_code)))
       (schools d)"


section \<open>Row level security\<close>

text \<open>
  Row level security is enabled on all six tables. A policy is created for one command
  with a \<^verbatim>\<open>USING\<close> expression, a \<^verbatim>\<open>WITH CHECK\<close> expression, or both; an expression is
  evaluated on a row, for the caller \<^verbatim>\<open>auth.uid()\<close>, against the database.
\<close>

datatype command = SELECT | INSERT | UPDATE | DELETE

type_synonym 'r expr = "db \<Rightarrow> uuid option \<Rightarrow> 'r \<Rightarrow> bool option"

record 'r policy =
  policy_name :: string
  command :: command
  using_expr :: "'r expr option"
  with_check_expr :: "'r expr option"

text \<open>
  PostgreSQL's enforcement. The policies of a table are permissive: the \<^verbatim>\<open>USING\<close>
  expressions of the policies for the command are combined with \<^verbatim>\<open>OR\<close>, and with no
  policy for the command no row passes (default deny). A new row is checked against the
  \<^verbatim>\<open>WITH CHECK\<close> expressions; a policy that has only \<^verbatim>\<open>USING\<close> contributes that
  expression as its check.
\<close>

definition applicable :: "'r policy list \<Rightarrow> command \<Rightarrow> 'r policy list" where
  "applicable ps c = filter (\<lambda>p. command p = c) ps"

definition security_quals :: "'r policy list \<Rightarrow> command \<Rightarrow> 'r expr list" where
  "security_quals ps c = List.map_filter using_expr (applicable ps c)"

definition with_check_quals :: "'r policy list \<Rightarrow> command \<Rightarrow> 'r expr list" where
  "with_check_quals ps c =
     List.map_filter
       (\<lambda>p. case with_check_expr p of None \<Rightarrow> using_expr p | Some e \<Rightarrow> Some e)
       (applicable ps c)"

definition row_visible :: "'r policy list \<Rightarrow> command \<Rightarrow> db \<Rightarrow> uuid option \<Rightarrow> 'r \<Rightarrow> bool" where
  "row_visible ps c d uid row = list_ex (\<lambda>e. is_true (e d uid row)) (security_quals ps c)"

definition check_ok :: "'r policy list \<Rightarrow> command \<Rightarrow> db \<Rightarrow> uuid option \<Rightarrow> 'r \<Rightarrow> bool" where
  "check_ok ps c d uid row = list_ex (\<lambda>e. is_true (e d uid row)) (with_check_quals ps c)"

text \<open>
  The decision of a table's policies for one command on one candidate row: the proposed
  row of an \<^verbatim>\<open>INSERT\<close>, the existing row of the other commands.
\<close>

definition allow :: "'r policy list \<Rightarrow> command \<Rightarrow> db \<Rightarrow> uuid option \<Rightarrow> 'r \<Rightarrow> bool" where
  "allow ps c d uid row =
     (case c of INSERT \<Rightarrow> check_ok ps INSERT d uid row | _ \<Rightarrow> row_visible ps c d uid row)"


subsection \<open>The policies of the migration\<close>

definition profiles_policies :: "profile policy list" where
  "profiles_policies =
    [\<lparr>policy_name = ''Users can view own profile'', command = SELECT,
      using_expr = Some (\<lambda>d uid row. sql_eq uid (Some (profile.user_id row))),
      with_check_expr = None\<rparr>,
     \<lparr>policy_name = ''Users can update own profile'', command = UPDATE,
      using_expr = Some (\<lambda>d uid row. sql_eq uid (Some (profile.user_id row))),
      with_check_expr = None\<rparr>,
     \<lparr>policy_name = ''Users can insert own profile'', command = INSERT,
      using_expr = None,
      with_check_expr = Some (\<lambda>d uid row. sql_eq uid (Some (profile.user_id row)))\<rparr>]"

definition user_roles_policies :: "user_role policy list" where
  "user_roles_policies =
    [\<lparr>policy_name = ''Users can view own role'', command = SELECT,
      using_expr = Some (\<lambda>d uid row. sql_eq uid (Some (user_role.user_id row))),
      with_check_expr = None\<rparr>,
     \<lparr>policy_name = ''Users can insert own role'', command = INSERT,
      using_expr = None,
      with_check_expr = Some (\<lambda>d uid row. sql_eq uid (Some (user_role.user_id row)))\<rparr>]"

definition schools_policies :: "school policy list" where
  "schools_policies =
    [\<lparr>policy_name = ''Anyone can view schools'', command = SELECT,
      using_expr = Some (\<lambda>d uid row. Some True),
      with_check_expr = None\<rparr>,
     \<lparr>policy_name = ''Admins can insert schools'', command = INSERT,
      using_expr = None,
      with_check_expr = Some (\<lambda>d uid row.
        sql_and (Some (has_role d uid (Some Admin))) (sql_eq (Some (admin_id row)) uid))\<rparr>,
     \<lparr>policy_name = ''Admins can update own schools'', command = UPDATE,
      using_expr = Some (\<lambda>d uid row. sql_eq (Some (admin_id row)) uid),
      with_check_expr = None\<rparr>]"

text \<open>
  The twelve policies of the tenant-scoped tables use two expressions:
  \<^verbatim>\<open>school_code = public.get_user_school_code(auth.uid()) OR
  public.is_school_admin(auth.uid(), school_code)\<close> for \<^verbatim>\<open>SELECT\<close> and
  \<^verbatim>\<open>public.is_school_admin(auth.uid(), school_code)\<close> for the three writing commands.
\<close>

definition of_their_school :: "db \<Rightarrow> uuid option \<Rightarrow> 'a resource_scheme \<Rightarrow> bool option" where
  "of_their_school d uid row =
     sql_or (sql_eq (Some (resource.school_code row)) (get_user_school_code d uid))
            (Some (is_school_admin d uid (Some (resource.school_code row))))"

definition admin_of_school :: "db \<Rightarrow> uuid option \<Rightarrow> 'a resource_scheme \<Rightarrow> bool option" where
  "admin_of_school d uid row = Some (is_school_admin d uid (Some (resource.school_code row)))"

definition scholarships_policies :: "scholarship policy list" where
  "scholarships_policies =
    [\<lparr>policy_name = ''Users can view scholarships of their school'', command = SELECT,
      using_expr = Some of_their_school, with_check_expr = None\<rparr>,
     \<lparr>policy_name = ''Admins can insert scholarships'', command = INSERT,
      using_expr = None, with_check_expr = Some admin_of_school\<rparr>,
     \<lparr>policy_name = ''Admins can update scholarships'', command = UPDATE,
      using_expr = Some admin_of_school, with_check_expr = None\<rparr>,
     \<lparr>policy_name = ''Admins can delete scholarships'', command = DELETE,
      using_expr = Some admin_of_school, with_check_expr = None\<rparr>]"

definition fees_policies :: "fee policy list" where
  "fees_policies =
    [\<lparr>policy_name = ''Users can view fees of their school'', command = SELECT,
      using_expr = Some of_their_school, with_check_expr = None\<rparr>,
     \<lparr>policy_name = ''Admins can insert fees'', command = INSERT,
      using_expr = None, with_check_expr = Some admin_of_school\<rparr>,
     \<lparr>policy_name = ''Admins can update fees'', command = UPDATE,
      using_expr = Some admin_of_school, with_check_expr = None\<rparr>,
     \<lparr>policy_name = ''Admins can delete fees'', command = DELETE,
      using_expr = Some admin_of_school, with_check_expr = None\<rparr>]"

definition notices_policies :: "notice policy list" where
  "notices_policies =
    [\<lparr>policy_name = ''Users can view notices of their school'', command = SELECT,
      using_expr = Some of_their_school, with_check_expr = None\<rparr>,
     \<lparr>policy_name = ''Admins can insert notices'', command = INSERT,
      using_expr = None, with_check_expr = Some admin_of_school\<rparr>,
     \<lparr>policy_name = ''Admins can update notices'', command = UPDATE,
      using_expr = Some admin_of_school, with_check_expr = None\<rparr>,
     \<lparr>policy_name = ''Admins can delete notices'', command = DELETE,
      using_expr = Some admin_of_school, with_check_expr = None\<rparr>]"


section \<open>Statements under row level security\<close>

text \<open>
  The errors PostgreSQL raises for the statements modelled here, with the text of their
  messages: SQLSTATE 42501 for a new row that fails the \<^verbatim>\<open>WITH CHECK\<close> of the table named,
  and SQLSTATE 23505 for a row that repeats a key of the unique index named.
\<close>

datatype pg_error = RlsViolation string | UniqueViolation string

fun message :: "pg_error \<Rightarrow> string" where
  "message (RlsViolation t) =
     ''new row violates row-level security policy for table '' @ [CHR 0x22] @ t @ [CHR 0x22]"
| "message (UniqueViolation c) =
     ''duplicate key value violates unique constraint '' @ [CHR 0x22] @ c @ [CHR 0x22]"

text \<open>
  \<^verbatim>\<open>update_updated_at_column()\<close>: \<^verbatim>\<open>NEW.updated_at = now(); RETURN NEW;\<close>
  The clock reading \<^verbatim>\<open>now()\<close> is an argument.
\<close>

definition update_updated_at_column :: "timestamptz \<Rightarrow> 'a stamped_scheme \<Rightarrow> 'a stamped_scheme" where
  "update_updated_at_column now new = new\<lparr>updated_at := now\<rparr>"

text \<open>
  What \<^verbatim>\<open>DEFAULT now()\<close> stores in both columns of a row whose \<^verbatim>\<open>INSERT\<close> names neither.
  A statement may name them: then the row is stored with the values given.
\<close>

definition default_timestamps :: "timestamptz \<Rightarrow> 'a stamped_scheme \<Rightarrow> 'a stamped_scheme" where
  "default_timestamps now new = new\<lparr>created_at := now, updated_at := now\<rparr>"

text \<open>
  A table as the migration declares it: its name, its policies, its unique indexes
  (the function gives the name of the first index that the new row violates against the
  other rows) and its \<^verbatim>\<open>BEFORE UPDATE ... FOR EACH ROW\<close> trigger.
\<close>

record 'r table =
  table_name :: string
  policies :: "'r policy list"
  unique_violation :: "'r list \<Rightarrow> 'r \<Rightarrow> string option"
  before_update :: "timestamptz \<Rightarrow> 'r \<Rightarrow> 'r"

definition schools_unique :: "school list \<Rightarrow> school \<Rightarrow> string option" where
  "schools_unique rows new =
     (if list_ex (\<lambda>r. school.id_col r = school.id_col new) rows then Some ''schools_pkey''
      else if list_ex (\<lambda>r. school.school_code r = school.school_code new) rows
        then Some ''schools_school_code_key''
      else None)"

definition profiles_unique :: "profile list \<Rightarrow> profile \<Rightarrow> string option" where
  "profiles_unique rows new =
     (if list_ex (\<lambda>r. profile.id_col r = profile.id_col new) rows then Some ''profiles_pkey''
      else if list_ex (\<lambda>r. profile.user_id r = profile.user_id new) rows
        then Some ''profiles_user_id_key''
      else None)"

definition user_roles_unique :: "user_role list \<Rightarrow> user_role \<Rightarrow> string option" where
  "user_roles_unique rows new =
     (if list_ex (\<lambda>r. user_role.id_col r = user_role.id_col new) rows
        then Some ''user_roles_pkey''
      else if list_ex (\<lambda>r. user_role.user_id r = user_role.user_id new \<and> role r = role new) rows
        then Some ''user_roles_user_id_role_key''
      else None)"

definition pkey_unique :: "string \<Rightarrow> 'a resource_scheme list \<Rightarrow> 'a resource_scheme \<Rightarrow> string option" where
  "pkey_unique index rows new =
     (if list_ex (\<lambda>r. resource.id_col r = resource.id_col new) rows then Some index else None)"

definition schools_table :: "school table" where
  "schools_table = \<lparr>table_name = ''schools'', policies = schools_policies,
     unique_violation = schools_unique, before_update = update_updated_at_column\<rparr>"

definition profiles_table :: "profile table" where
  "profiles_table = \<lparr>table_name = ''profiles'', policies = profiles_policies,
     unique_violation = profiles_unique, before_update = update_updated_at_column\<rparr>"

definition user_roles_table :: "user_role table" where
  "user_roles_table = \<lparr>table_name = ''user_roles'', policies = user_roles_policies,
     unique_violation = user_roles_unique, before_update = (\<lambda>now new. new)\<rparr>"

definition scholarships_table :: "scholarship table" where
  "scholarships_table = \<lparr>table_name = ''scholarships'', policies = scholarships_policies,
     unique_violation = pkey_unique ''scholarships_pkey'',
     before_update = update_updated_at_column\<rparr>"

definition fees_table :: "fee table" where
  "fees_table = \<lparr>table_name = ''fees'', policies = fees_policies,
     unique_violation = pkey_unique ''fees_pkey'', before_update = update_updated_at_column\<rparr>"

definition notices_table :: "notice table" where
  "notices_table = \<lparr>table_name = ''notices'', policies = notices_policies,
     unique_violation = pkey_unique ''notices_pkey'', before_update = update_updated_at_column\<rparr>"

text \<open>
  \<^verbatim>\<open>SELECT ... WHERE flt\<close>: the rows that pass the \<^verbatim>\<open>SELECT\<close> policies and the filter.
\<close>

definition pg_select :: "'r table \<Rightarrow> db \<Rightarrow> uuid option \<Rightarrow> ('r \<Rightarrow> bool) \<Rightarrow> 'r list \<Rightarrow> 'r list" where
  "pg_select t d uid flt rows =
     filter (\<lambda>r. row_visible (policies t) SELECT d uid r \<and> flt r) rows"

text \<open>
  \<^verbatim>\<open>INSERT\<close>: the new row is checked against the policies first, then against the unique
  indexes. The row is the one that reaches the table, defaults filled in.
\<close>

definition pg_insert :: "'r table \<Rightarrow> db \<Rightarrow> uuid option \<Rightarrow> 'r \<Rightarrow> 'r list \<Rightarrow> pg_error + 'r list" where
  "pg_insert t d uid new rows =
     (if \<not> check_ok (policies t) INSERT d uid new then Inl (RlsViolation (table_name t))
      else case unique_violation t rows new of
             Some c \<Rightarrow> Inl (UniqueViolation c)
           | None \<Rightarrow> Inr (rows @ [new]))"

text \<open>
  The rows a \<^verbatim>\<open>UPDATE\<close> or \<^verbatim>\<open>DELETE\<close> with a \<^verbatim>\<open>WHERE\<close> clause works on: the clause reads
  columns, so the \<^verbatim>\<open>SELECT\<close> policies apply besides those of the command. The other rows
  are skipped without an error.
\<close>

definition targeted :: "'r table \<Rightarrow> command \<Rightarrow> db \<Rightarrow> uuid option \<Rightarrow> ('r \<Rightarrow> bool) \<Rightarrow> 'r \<Rightarrow> bool" where
  "targeted t c d uid flt row =
     (row_visible (policies t) SELECT d uid row \<and> row_visible (policies t) c d uid row \<and> flt row)"

text \<open>
  \<^verbatim>\<open>UPDATE ... SET asg WHERE flt\<close>, row by row: the assignment, the \<^verbatim>\<open>BEFORE UPDATE\<close>
  trigger, the check of the new row against the policies, the unique indexes. The first
  error aborts the statement. \<open>acc\<close> holds the rows already passed.
\<close>

fun pg_update_rows :: "'r table \<Rightarrow> timestamptz \<Rightarrow> db \<Rightarrow> uuid option \<Rightarrow> ('r \<Rightarrow> bool) \<Rightarrow> ('r \<Rightarrow> 'r)
    \<Rightarrow> 'r list \<Rightarrow> 'r list \<Rightarrow> pg_error + 'r list" where
  "pg_update_rows t now d uid flt asg acc [] = Inr acc"
| "pg_update_rows t now d uid flt asg acc (r # rest) =
     (if targeted t UPDATE d uid flt r then
        (let new = before_update t now (asg r) in
         if \<not> (check_ok (policies t) UPDATE d uid new
                \<and> row_visible (policies t) SELECT d uid new)
           then Inl (RlsViolation (table_name t))
         else case unique_violation t (acc @ rest) new of
                Some c \<Rightarrow> Inl (UniqueViolation c)
              | None \<Rightarrow> pg_update_rows t now d uid flt asg (acc @ [new]) rest)
      else pg_update_rows t now d uid flt asg (acc @ [r]) rest)"

definition pg_update :: "'r table \<Rightarrow> timestamptz \<Rightarrow> db \<Rightarrow> uuid option \<Rightarrow> ('r \<Rightarrow> bool) \<Rightarrow> ('r \<Rightarrow> 'r)
    \<Rightarrow> 'r list \<Rightarrow> pg_error + 'r list" where
  "pg_update t now d uid flt asg rows = pg_update_rows t now d uid flt asg [] rows"

text \<open>\<^verbatim>\<open>DELETE ... WHERE flt\<close>\<close>

definition pg_delete :: "'r table \<Rightarrow> db \<Rightarrow> uuid option \<Rightarrow> ('r \<Rightarrow> bool) \<Rightarrow> 'r list \<Rightarrow> 'r list" where
  "pg_delete t d uid flt rows = filter (\<lambda>r. \<not> targeted t DELETE d uid flt r) rows"


subsection \<open>The requests of the client API\<close>

text \<open>
  What a client can send for the six tables: an \<^verbatim>\<open>INSERT\<close> of a row, an \<^verbatim>\<open>UPDATE\<close> with
  a filter and an assignment, a \<^verbatim>\<open>DELETE\<close> with a filter. \<open>exec\<close> runs one request at
  clock reading \<open>now\<close> for the caller \<^verbatim>\<open>auth.uid()\<close>.
\<close>

datatype request =
    Insert_schools school
  | Update_schools "school \<Rightarrow> bool" "school \<Rightarrow> school"
  | Delete_schools "school \<Rightarrow> bool"
  | Insert_profiles profile
  | Update_profiles "profile \<Rightarrow> bool" "profile \<Rightarrow> profile"
  | Delete_profiles "profile \<Rightarrow> bool"
  | Insert_user_roles user_role
  | Update_user_roles "user_role \<Rightarrow> bool" "user_role \<Rightarrow> user_role"
  | Delete_user_roles "user_role \<Rightarrow> bool"
  | Insert_scholarships scholarship
  | Update_scholarships "scholarship \<Rightarrow> bool" "scholarship \<Rightarrow> scholarship"
  | Delete_scholarships "scholarship \<Rightarrow> bool"
  | Insert_fees fee
  | Update_fees "fee \<Rightarrow> bool" "fee \<Rightarrow> fee"
  | Delete_fees "fee \<Rightarrow> bool"
  | Insert_notices notice
  | Update_notices "notice \<Rightarrow> bool" "notice \<Rightarrow> notice"
  | Delete_notices "notice \<Rightarrow> bool"

definition commit :: "pg_error + 'a \<Rightarrow> ('a \<Rightarrow> db) \<Rightarrow> pg_error + db" where
  "commit res store = (case res of Inl e \<Rightarrow> Inl e | Inr rows \<Rightarrow> Inr (store rows))"

fun exec :: "timestamptz \<Rightarrow> uuid option \<Rightarrow> request \<Rightarrow> db \<Rightarrow> pg_error + db" where
  "exec now uid (Insert_schools new) d =
     commit (pg_insert schools_table d uid new (schools d)) (\<lambda>rows. d\<lparr>schools := rows\<rparr>)"
| "exec now uid (Update_schools flt asg) d =
     commit (pg_update schools_table now d uid flt asg (schools d)) (\<lambda>rows. d\<lparr>schools := rows\<rparr>)"
| "exec now uid (Delete_schools flt) d =
     Inr (d\<lparr>schools := pg_delete schools_table d uid flt (schools d)\<rparr>)"
| "exec now uid (Insert_profiles new) d =
     commit (pg_insert profiles_table d uid new (profiles d)) (\<lambda>rows. d\<lparr>profiles := rows\<rparr>)"
| "exec now uid (Update_profiles flt asg) d =
     commit (pg_update profiles_table now d uid flt asg (profiles d))
       (\<lambda>rows. d\<lparr>profiles := rows\<rparr>)"
| "exec now uid (Delete_profiles flt) d =
     Inr (d\<lparr>profiles := pg_delete profiles_table d uid flt (profiles d)\<rparr>)"
| "exec now uid (Insert_user_roles new) d =
     commit (pg_insert user_roles_table d uid new (user_roles d))
       (\<lambda>rows. d\<lparr>user_roles := rows\<rparr>)"
| "exec now uid (Update_user_roles flt asg) d =
     commit (pg_update user_roles_table now d uid flt asg (user_roles d))
       (\<lambda>rows. d\<lparr>user_roles := rows\<rparr>)"
| "exec now uid (Delete_user_roles flt) d =
     Inr (d\<lparr>user_roles := pg_delete user_roles_table d uid flt (user_roles d)\<rparr>)"
| "exec now uid (Insert_scholarships new) d =
     commit (pg_insert scholarships_table d uid new (scholarships d))
       (\<lambda>rows. d\<lparr>scholarships := rows\<rparr>)"
| "exec now uid (Update_scholarships flt asg) d =
     commit (pg_update scholarships_table now d uid flt asg (scholarships d))
       (\<lambda>rows. d\<lparr>scholarships := rows\<rparr>)"
| "exec now uid (Delete_scholarships flt) d =
     Inr (d\<lparr>scholarships := pg_delete scholarships_table d uid flt (scholarships d)\<rparr>)"
| "exec now uid (Insert_fees new) d =
     commit (pg_insert fees_table d uid new (fees d)) (\<lambda>rows. d\<lparr>fees := rows\<rparr>)"
| "exec now uid (Update_fees flt asg) d =
     commit (pg_update fees_table now d uid flt asg (fees d)) (\<lambda>rows. d\<lparr>fees := rows\<rparr>)"
| "exec now uid (Delete_fees flt) d =
     Inr (d\<lparr>fees := pg_delete fees_table d uid flt (fees d)\<rparr>)"
| "exec now uid (Insert_notices new) d =
     commit (pg_insert notices_table d uid new (notices d)) (\<lambda>rows. d\<lparr>notices := rows\<rparr>)"
| "exec now uid (Update_notices flt asg) d =
     commit (pg_update notices_table now d uid flt asg (notices d))
       (\<lambda>rows. d\<lparr>notices := rows\<rparr>)"
| "exec now uid (Delete_notices flt) d =
     Inr (d\<lparr>notices := pg_delete notices_table d uid flt (notices d)\<rparr>)"

text \<open>
  A run of requests from a database, each with its clock reading and caller; it stops at
  the first error.
\<close>

fun run :: "(timestamptz \<times> uuid option \<times> request) list \<Rightarrow> db \<Rightarrow> pg_error + db" where
  "run [] d = Inr d"
| "run ((now, uid, req) # rest) d =
     (case exec now uid req d of Inl e \<Rightarrow> Inl e | Inr d' \<Rightarrow> run rest d')"


section \<open>The client code\<close>

subsection \<open>JavaScript strings\<close>

text \<open>
  The string methods the client code calls: \<^verbatim>\<open>trim()\<close>, \<^verbatim>\<open>toUpperCase()\<close>,
  \<^verbatim>\<open>replace(/[^A-Z0-9]/g, '')\<close> and \<^verbatim>\<open>includes(sub)\<close> (here \<open>includes_str\<close>). The
  definitions are the methods on ASCII strings, those with every character below 0x80:
  there \<^verbatim>\<open>trim()\<close> strips the six characters of \<open>is_space\<close>, \<^verbatim>\<open>toUpperCase()\<close> maps
  the letters a to z, and \<^verbatim>\<open>length\<close> counts characters. On other strings JavaScript does
  more (\<^verbatim>\<open>trim()\<close> strips U+00A0 and the other Unicode spaces too, \<^verbatim>\<open>toUpperCase()\<close> maps
  further letters, the sharp s to SS), so a statement about what these definitions
  compute is one about ASCII input and carries \<open>is_ascii\<close> as a hypothesis.
\<close>

definition is_ascii :: "string \<Rightarrow> bool" where
  "is_ascii s = list_all (\<lambda>c. (of_char c :: nat) < 128) s"

definition is_space :: "char \<Rightarrow> bool" where
  "is_space c = (c \<in> set [CHR 0x20, CHR 0x09, CHR 0x0A, CHR 0x0B, CHR 0x0C, CHR 0x0D])"

definition trim :: "string \<Rightarrow> string" where
  "trim s = rev (dropWhile is_space (rev (dropWhile is_space s)))"

definition toUpperCase :: "string \<Rightarrow> string" where
  "toUpperCase s =
     map (\<lambda>c. let n = (of_char c :: nat) in if 97 \<le> n \<and> n \<le> 122 then char_of (n - 32) else c) s"

definition replace_non_A_Z_0_9 :: "string \<Rightarrow> string" where
  "replace_non_A_Z_0_9 s =
     filter (\<lambda>c. let n = (of_char c :: nat) in (65 \<le> n \<and> n \<le> 90) \<or> (48 \<le> n \<and> n \<le> 57)) s"

fun includes_str :: "string \<Rightarrow> string \<Rightarrow> bool" where
  "includes_str [] sub = (sub = [])"
| "includes_str (c # cs) sub = (take (length sub) (c # cs) = sub \<or> includes_str cs sub)"


subsection \<open>\<^verbatim>\<open>useUserRole\<close>\<close>

text \<open>
  \<^verbatim>\<open>.single()\<close> gives the row of a result of exactly one row, and an error otherwise.
  \<^verbatim>\<open>fetchRole\<close> sets the role only when there is no error, so it stays \<^verbatim>\<open>null\<close> on one.
\<close>

definition single :: "'a list \<Rightarrow> 'a option" where
  "single rows = (case rows of [r] \<Rightarrow> Some r | _ \<Rightarrow> None)"

definition fetchRole :: "db \<Rightarrow> uuid \<Rightarrow> app_role option" where
  "fetchRole d user =
     (case single (pg_select user_roles_table d (Some user)
                     (\<lambda>r. user_role.user_id r = user) (user_roles d)) of
        Some data \<Rightarrow> Some (role data)
      | None \<Rightarrow> None)"


subsection \<open>\<^verbatim>\<open>useSchool\<close> and the \<^verbatim>\<open>CreateSchool\<close> page\<close>

datatype app_error = NotAuthenticated | PostgrestError pg_error

fun error_message :: "app_error \<Rightarrow> string" where
  "error_message NotAuthenticated = ''Not authenticated''"
| "error_message (PostgrestError e) = message e"

text \<open>
  \<^verbatim>\<open>createSchool(name, schoolCode)\<close> for the session user \<open>user\<close> (the argument
  \<^verbatim>\<open>name\<close> is \<open>name'\<close>, besides the column \<open>name\<close>): the insert into
  \<^verbatim>\<open>schools\<close> at clock reading \<open>now\<close>, where \<open>new_id\<close> is what \<^verbatim>\<open>gen_random_uuid()\<close>
  yields, and on success the update of the caller's profile at \<open>now'\<close>, whose outcome the
  code ignores. It returns the error, the row inserted and the database.
\<close>

definition createSchool :: "timestamptz \<Rightarrow> timestamptz \<Rightarrow> uuid \<Rightarrow> uuid option \<Rightarrow> string \<Rightarrow> string \<Rightarrow> db
    \<Rightarrow> app_error option \<times> school option \<times> db" where
  "createSchool now now' new_id user name' schoolCode d =
     (case user of
        None \<Rightarrow> (Some NotAuthenticated, None, d)
      | Some uid \<Rightarrow>
          (let code = replace_non_A_Z_0_9 (toUpperCase schoolCode);
               new = default_timestamps now
                       \<lparr>created_at = 0, updated_at = 0, school.id_col = new_id, name = name',
                        school.school_code = code, admin_id = uid\<rparr>
           in case exec now (Some uid) (Insert_schools new) d of
                Inl e \<Rightarrow> (Some (PostgrestError e), None, d)
              | Inr d1 \<Rightarrow>
                  (case exec now' (Some uid)
                          (Update_profiles (\<lambda>r. profile.user_id r = uid)
                             (\<lambda>r. r\<lparr>profile.school_code := Some code\<rparr>)) d1 of
                     Inl e \<Rightarrow> (None, Some new, d1)
                   | Inr d2 \<Rightarrow> (None, Some new, d2))))"

record toast =
  variant :: "string option"
  title :: string
  description :: string

text \<open>
  \<^verbatim>\<open>handleSubmit\<close> of the page, for the form fields \<open>schoolName\<close> and \<open>schoolCode\<close>: the
  toast it shows and the database it leaves.
\<close>

definition handleSubmit :: "timestamptz \<Rightarrow> timestamptz \<Rightarrow> uuid \<Rightarrow> uuid option \<Rightarrow> string \<Rightarrow> string \<Rightarrow> db
    \<Rightarrow> toast \<times> db" where
  "handleSubmit now now' new_id user schoolName schoolCode d =
     (if length (trim schoolName) < 3 then
        (\<lparr>variant = Some ''destructive'', title = ''Invalid name'',
          description = ''School name must be at least 3 characters.''\<rparr>, d)
      else if length (trim schoolCode) < 4 then
        (\<lparr>variant = Some ''destructive'', title = ''Invalid code'',
          description = ''School code must be at least 4 characters.''\<rparr>, d)
      else
        (case createSchool now now' new_id user (trim schoolName) (trim schoolCode) d of
           (Some error, data, d') \<Rightarrow>
             (\<lparr>variant = Some ''destructive'', title = ''Failed to create school'',
               description =
                 (if includes_str (error_message error) ''duplicate''
                  then ''This school code is already taken. Please choose a different one.''
                  else error_message error)\<rparr>, d')
         | (None, data, d') \<Rightarrow>
             (\<lparr>variant = None, title = ''School created!'',
               description = ''Your school has been set up successfully.''\<rparr>, d')))"

section \<open>An example database\<close>

text \<open>
  Two schools: Springfield High, created by admin 1 and joined by student 2, with a
  notice, a fee and a scholarship; Shelbyville High, created by admin 4 and joined by
  student 3. User 5 has signed up as a student and joined no school.
\<close>

definition springfield :: school where
  "springfield = \<lparr>created_at = 10, updated_at = 10, school.id_col = 100,
     name = ''Springfield High'', school.school_code = ''SPRING24'', admin_id = 1\<rparr>"

definition shelbyville :: school where
  "shelbyville = \<lparr>created_at = 11, updated_at = 11, school.id_col = 101,
     name = ''Shelbyville High'', school.school_code = ''SHELBY24'', admin_id = 4\<rparr>"

definition exam_notice :: notice where
  "exam_notice = \<lparr>created_at = 20, updated_at = 20, resource.id_col = 300,
     resource.school_code = ''SPRING24'', resource.title = ''Exam'', content = ''Monday'',
     priority = Some ''high''\<rparr>"

definition bus_fee :: fee where
  "bus_fee = \<lparr>created_at = 21, updated_at = 21, resource.id_col = 400,
     resource.school_code = ''SPRING24'', resource.title = ''Bus'', fee.description = None,
     fee.amount = 2500,
     due_date = None, category = Some ''transport''\<rparr>"

definition merit_award :: scholarship where
  "merit_award = \<lparr>created_at = 22, updated_at = 22, resource.id_col = 500,
     resource.school_code = ''SPRING24'', resource.title = ''Merit'',
     scholarship.description = None, scholarship.amount = Some 100000, deadline = None, eligibility = None\<rparr>"

definition demo_db :: db where
  "demo_db = \<lparr>schools = [springfield, shelbyville],
     profiles =
       [\<lparr>created_at = 1, updated_at = 10, profile.id_col = 201, user_id = 1,
          full_name = ''A'', profile.school_code = Some ''SPRING24''\<rparr>,
        \<lparr>created_at = 2, updated_at = 12, profile.id_col = 202, user_id = 2,
          full_name = ''S'', profile.school_code = Some ''SPRING24''\<rparr>,
        \<lparr>created_at = 3, updated_at = 13, profile.id_col = 203, user_id = 3,
          full_name = ''T'', profile.school_code = Some ''SHELBY24''\<rparr>,
        \<lparr>created_at = 4, updated_at = 11, profile.id_col = 204, user_id = 4,
          full_name = ''B'', profile.school_code = Some ''SHELBY24''\<rparr>,
        \<lparr>created_at = 5, updated_at = 5, profile.id_col = 205, user_id = 5,
          full_name = ''N'', profile.school_code = None\<rparr>],
     user_roles =
       [\<lparr>user_role.id_col = 601, user_id = 1, role = Admin\<rparr>,
        \<lparr>user_role.id_col = 602, user_id = 2, role = Student\<rparr>,
        \<lparr>user_role.id_col = 603, user_id = 3, role = Student\<rparr>,
        \<lparr>user_role.id_col = 604, user_id = 4, role = Admin\<rparr>,
        \<lparr>user_role.id_col = 605, user_id = 5, role = Student\<rparr>],
     scholarships = [merit_award], fees = [bus_fee], notices = [exam_notice]\<rparr>"


text \<open>
  Requests on the example database: admin 1 moves the notice to the other school, and
  admin 1 gives it a new title.
\<close>

definition move_notice :: request where
  "move_notice = Update_notices (\<lambda>r. resource.id_col r = 300)
     (\<lambda>r. r\<lparr>resource.school_code := ''SHELBY24''\<rparr>)"

definition retitle_notice :: request where
  "retitle_notice = Update_notices (\<lambda>r. resource.id_col r = 300)
     (\<lambda>r. r\<lparr>resource.title := ''Exam moved''\<rparr>)"


text \<open>
  Student 2 sets the school code of the own profile to \<^verbatim>\<open>NULL\<close>, and student 2 inserts
  a second role row, with the role admin.
\<close>

definition leave_school :: request where
  "leave_school = Update_profiles (\<lambda>r. profile.user_id r = 2)
     (\<lambda>r. r\<lparr>profile.school_code := None\<rparr>)"

definition claim_admin :: request where
  "claim_admin = Insert_user_roles \<lparr>user_role.id_col = 606, user_id = 2, role = Admin\<rparr>"


text \<open>
  All rows of the five tables with timestamps have \<^verbatim>\<open>updated_at >= created_at\<close>.
\<close>

definition stamps_ordered :: "db \<Rightarrow> bool" where
  "stamps_ordered d =
     (list_all (\<lambda>r. created_at r \<le> updated_at r) (schools d)
      \<and> list_all (\<lambda>r. created_at r \<le> updated_at r) (profiles d)
      \<and> list_all (\<lambda>r. created_at r \<le> updated_at r) (scholarships d)
      \<and> list_all (\<lambda>r. created_at r \<le> updated_at r) (fees d)
      \<and> list_all (\<lambda>r. created_at r \<le> updated_at r) (notices d))"

text \<open>
  A run from the empty database, at clock readings 1, 2 and 3: user 1 signs up as admin,
  creates a school, and inserts a notice whose \<^verbatim>\<open>INSERT\<close> names both timestamp columns.
\<close>

definition backdated_run :: "(timestamptz \<times> uuid option \<times> request) list" where
  "backdated_run =
     [(1, Some 1, Insert_user_roles \<lparr>user_role.id_col = 601, user_id = 1, role = Admin\<rparr>),
      (2, Some 1, Insert_schools \<lparr>created_at = 2, updated_at = 2, school.id_col = 100,
         name = ''Springfield High'', school.school_code = ''SPRING24'', admin_id = 1\<rparr>),
      (3, Some 1, Insert_notices \<lparr>created_at = 100, updated_at = 50, resource.id_col = 300,
         resource.school_code = ''SPRING24'', resource.title = ''Exam'', content = ''Monday'',
         priority = Some ''high''\<rparr>)]"


text \<open>Student 2 tries to change the name in the profile of student 3.\<close>

definition rename_other :: request where
  "rename_other = Update_profiles (\<lambda>r. profile.user_id r = 3) (\<lambda>r. r\<lparr>full_name := ''X''\<rparr>)"


section \<open>Evaluating the policies\<close>

lemmas rls_defs = row_visible_def check_ok_def security_quals_def with_check_quals_def
  applicable_def is_true_def

lemma sql_eq_true [simp]: "(sql_eq a b = Some True) = (a \<noteq> None \<and> a = b)"
  by (auto simp: sql_eq_def split: option.splits)

lemma sql_and_true [simp]: "(sql_and a b = Some True) = (a = Some True \<and> b = Some True)"
  by (auto simp: sql_and_def)

lemma sql_or_true [simp]: "(sql_or a b = Some True) = (a = Some True \<or> b = Some True)"
  by (auto simp: sql_or_def)

lemma profiles_visible:
  "row_visible profiles_policies SELECT d uid row = (uid = Some (profile.user_id row))"
  "row_visible profiles_policies UPDATE d uid row = (uid = Some (profile.user_id row))"
  "row_visible profiles_policies DELETE d uid row = False"
  "check_ok profiles_policies INSERT d uid row = (uid = Some (profile.user_id row))"
  "check_ok profiles_policies UPDATE d uid row = (uid = Some (profile.user_id row))"
  by (auto simp: rls_defs profiles_policies_def)

lemma user_roles_visible:
  "row_visible user_roles_policies SELECT d uid row = (uid = Some (user_role.user_id row))"
  "row_visible user_roles_policies UPDATE d uid row = False"
  "row_visible user_roles_policies DELETE d uid row = False"
  "check_ok user_roles_policies INSERT d uid row = (uid = Some (user_role.user_id row))"
  "check_ok user_roles_policies UPDATE d uid row = False"
  by (auto simp: rls_defs user_roles_policies_def)

lemma schools_visible:
  "row_visible schools_policies SELECT d uid row = True"
  "row_visible schools_policies UPDATE d uid row = (uid = Some (admin_id row))"
  "row_visible schools_policies DELETE d uid row = False"
  "check_ok schools_policies INSERT d uid row = (has_role d uid (Some Admin) \<and> uid = Some (admin_id row))"
  "check_ok schools_policies UPDATE d uid row = (uid = Some (admin_id row))"
  by (auto simp: rls_defs schools_policies_def)

lemma scholarships_visible:
  "row_visible scholarships_policies SELECT d uid row =
     (get_user_school_code d uid = Some (resource.school_code row)
      \<or> is_school_admin d uid (Some (resource.school_code row)))"
  "row_visible scholarships_policies UPDATE d uid row = is_school_admin d uid (Some (resource.school_code row))"
  "row_visible scholarships_policies DELETE d uid row = is_school_admin d uid (Some (resource.school_code row))"
  "check_ok scholarships_policies INSERT d uid row = is_school_admin d uid (Some (resource.school_code row))"
  "check_ok scholarships_policies UPDATE d uid row = is_school_admin d uid (Some (resource.school_code row))"
  by (auto simp: rls_defs scholarships_policies_def of_their_school_def admin_of_school_def)

lemma fees_visible:
  "row_visible fees_policies SELECT d uid row =
     (get_user_school_code d uid = Some (resource.school_code row)
      \<or> is_school_admin d uid (Some (resource.school_code row)))"
  "row_visible fees_policies UPDATE d uid row = is_school_admin d uid (Some (resource.school_code row))"
  "row_visible fees_policies DELETE d uid row = is_school_admin d uid (Some (resource.school_code row))"
  "check_ok fees_policies INSERT d uid row = is_school_admin d uid (Some (resource.school_code row))"
  "check_ok fees_policies UPDATE d uid row = is_school_admin d uid (Some (resource.school_code row))"
  by (auto simp: rls_defs fees_policies_def of_their_school_def admin_of_school_def)

lemma notices_visible:
  "row_visible notices_policies SELECT d uid row =
     (get_user_school_code d uid = Some (resource.school_code row)
      \<or> is_school_admin d uid (Some (resource.school_code row)))"
  "row_visible notices_policies UPDATE d uid row = is_school_admin d uid (Some (resource.school_code row))"
  "row_visible notices_policies DELETE d uid row = is_school_admin d uid (Some (resource.school_code row))"
  "check_ok notices_policies INSERT d uid row = is_school_admin d uid (Some (resource.school_code row))"
  "check_ok notices_policies UPDATE d uid row = is_school_admin d uid (Some (resource.school_code row))"
  by (auto simp: rls_defs notices_policies_def of_their_school_def admin_of_school_def)

lemma is_school_admin_iff:
  "is_school_admin d uid code = (\<exists>s \<in> set (schools d). uid = Some (admin_id s) \<and> code = Some (school.school_code s))"
  by (auto simp: is_school_admin_def list_ex_iff is_true_def)

lemma has_role_iff:
  "has_role d uid r = (\<exists>x \<in> set (user_roles d). uid = Some (user_role.user_id x) \<and> r = Some (role x))"
  by (auto simp: has_role_def list_ex_iff is_true_def)

lemma is_school_admin_unique:
  assumes "s \<in> set (schools d)" and "distinct (map school.school_code (schools d))"
  shows "is_school_admin d uid (Some (school.school_code s)) = (uid = Some (admin_id s))"
  using assms by (auto simp: is_school_admin_iff distinct_map inj_on_def)

lemmas demo_defs = demo_db_def springfield_def shelbyville_def exam_notice_def bus_fee_def
  merit_award_def

lemma allow_simps:
  "allow ps SELECT d uid row = row_visible ps SELECT d uid row"
  "allow ps INSERT d uid row = check_ok ps INSERT d uid row"
  "allow ps UPDATE d uid row = row_visible ps UPDATE d uid row"
  "allow ps DELETE d uid row = row_visible ps DELETE d uid row"
  by (simp_all add: allow_def)

lemma demo_codes:
  "get_user_school_code demo_db (Some 1) = Some ''SPRING24''"
  "get_user_school_code demo_db (Some 2) = Some ''SPRING24''"
  "get_user_school_code demo_db (Some 3) = Some ''SHELBY24''"
  "get_user_school_code demo_db (Some 4) = Some ''SHELBY24''"
  "get_user_school_code demo_db (Some 5) = None"
  "get_user_school_code demo_db None = None"
  by (simp_all add: get_user_school_code_def demo_defs is_true_def sql_eq_def)

lemma demo_admins:
  "is_school_admin demo_db uid (Some ''SPRING24'') = (uid = Some 1)"
  "is_school_admin demo_db uid (Some ''SHELBY24'') = (uid = Some 4)"
  by (auto simp: is_school_admin_iff demo_defs)

lemma demo_tables:
  "schools demo_db = [springfield, shelbyville]"
  "scholarships demo_db = [merit_award]" "fees demo_db = [bus_fee]"
  "notices demo_db = [exam_notice]"
  by (simp_all add: demo_db_def)

lemma demo_rows:
  "resource.school_code merit_award = ''SPRING24''"
  "resource.school_code bus_fee = ''SPRING24''"
  "resource.school_code exam_notice = ''SPRING24''"
  "school.school_code springfield = ''SPRING24''" "admin_id springfield = 1"
  "school.school_code shelbyville = ''SHELBY24''" "admin_id shelbyville = 4"
  by (simp_all add: demo_defs)

lemma table_simps [simp]:
  "policies schools_table = schools_policies" "table_name schools_table = ''schools''"
  "unique_violation schools_table = schools_unique"
  "before_update schools_table = update_updated_at_column"
  "policies profiles_table = profiles_policies" "table_name profiles_table = ''profiles''"
  "unique_violation profiles_table = profiles_unique"
  "before_update profiles_table = update_updated_at_column"
  "policies user_roles_table = user_roles_policies" "table_name user_roles_table = ''user_roles''"
  "unique_violation user_roles_table = user_roles_unique"
  "before_update user_roles_table = (\<lambda>now new. new)"
  "policies scholarships_table = scholarships_policies"
  "table_name scholarships_table = ''scholarships''"
  "unique_violation scholarships_table = pkey_unique ''scholarships_pkey''"
  "before_update scholarships_table = update_updated_at_column"
  "policies fees_table = fees_policies" "table_name fees_table = ''fees''"
  "unique_violation fees_table = pkey_unique ''fees_pkey''"
  "before_update fees_table = update_updated_at_column"
  "policies notices_table = notices_policies" "table_name notices_table = ''notices''"
  "unique_violation notices_table = pkey_unique ''notices_pkey''"
  "before_update notices_table = update_updated_at_column"
  by (simp_all add: schools_table_def profiles_table_def user_roles_table_def
      scholarships_table_def fees_table_def notices_table_def)

lemma exec_delete_noop:
  "exec now uid (Delete_schools fs) d = Inr d"
  "exec now uid (Delete_profiles fp) d = Inr d"
  "exec now uid (Delete_user_roles fr) d = Inr d"
  by (simp_all add: pg_delete_def targeted_def schools_visible profiles_visible
      user_roles_visible)

lemma exec_insert_denied:
  "\<not> check_ok fees_policies INSERT d uid new \<Longrightarrow> exec now uid (Insert_fees new) d = Inl (RlsViolation ''fees'')"
  "\<not> check_ok schools_policies INSERT d uid s \<Longrightarrow> exec now uid (Insert_schools s) d = Inl (RlsViolation ''schools'')"
  by (simp_all add: pg_insert_def commit_def)

lemma demo_unique: "distinct (map school.school_code (schools demo_db))"
  by (simp add: demo_tables demo_rows)

section \<open>What an accepted statement stores\<close>

lemma pg_update_rows_Inr:
  assumes "pg_update_rows t now d uid flt asg acc rows = Inr rows'"
  shows "rows' = acc @ map (\<lambda>r. if targeted t UPDATE d uid flt r
                                   then before_update t now (asg r) else r) rows
       \<and> (\<forall>r\<in>set rows. targeted t UPDATE d uid flt r \<longrightarrow>
            check_ok (policies t) UPDATE d uid (before_update t now (asg r))
            \<and> row_visible (policies t) SELECT d uid (before_update t now (asg r)))"
  using assms
proof (induction rows arbitrary: acc)
  case Nil
  then show ?case by simp
next
  case (Cons a rows)
  show ?case
  proof (cases "targeted t UPDATE d uid flt a")
    case True
    with Cons.prems have
      ok: "check_ok (policies t) UPDATE d uid (before_update t now (asg a))
           \<and> row_visible (policies t) SELECT d uid (before_update t now (asg a))"
      and rest: "pg_update_rows t now d uid flt asg (acc @ [before_update t now (asg a)]) rows
                 = Inr rows'"
      by (auto simp: Let_def split: if_splits option.splits)
    from Cons.IH [OF rest] ok True show ?thesis by simp
  next
    case False
    with Cons.prems have "pg_update_rows t now d uid flt asg (acc @ [a]) rows = Inr rows'"
      by simp
    from Cons.IH [OF this] False show ?thesis by simp
  qed
qed

lemma pg_update_Inr:
  assumes "pg_update t now d uid flt asg rows = Inr rows'"
  shows "rows' = map (\<lambda>r. if targeted t UPDATE d uid flt r
                            then before_update t now (asg r) else r) rows"
    and "\<And>r. r \<in> set rows \<Longrightarrow> targeted t UPDATE d uid flt r \<Longrightarrow>
            check_ok (policies t) UPDATE d uid (before_update t now (asg r))"
  using pg_update_rows_Inr [of t now d uid flt asg "[]" rows rows'] assms
  by (simp_all add: pg_update_def)

lemma pg_update_no_policy:
  assumes "\<And>r. \<not> row_visible (policies t) UPDATE d uid r"
  shows "pg_update t now d uid flt asg rows = Inr rows"
proof -
  have "pg_update_rows t now d uid flt asg acc rows = Inr (acc @ rows)" for acc
    by (induction rows arbitrary: acc) (simp_all add: targeted_def assms)
  then show ?thesis by (simp add: pg_update_def)
qed

lemma pg_insert_Inr:
  "pg_insert t d uid new rows = Inr rows' \<Longrightarrow>
     rows' = rows @ [new] \<and> check_ok (policies t) INSERT d uid new
     \<and> unique_violation t rows new = None"
  by (auto simp: pg_insert_def split: if_splits option.splits)

lemma commit_Inr: "commit res store = Inr d' \<Longrightarrow> \<exists>rows. res = Inr rows \<and> d' = store rows"
  by (auto simp: commit_def split: sum.splits)

lemma upd_stamp_simps [simp]:
  "profile.user_id (update_updated_at_column now p) = profile.user_id p"
  "profile.school_code (update_updated_at_column now p) = profile.school_code p"
  "admin_id (update_updated_at_column now s) = admin_id s"
  "school.school_code (update_updated_at_column now s) = school.school_code s"
  "resource.school_code (update_updated_at_column now r) = resource.school_code r"
  "updated_at (update_updated_at_column now x) = now"
  "created_at (update_updated_at_column now x) = created_at x"
  by (simp_all add: update_updated_at_column_def)

lemma pg_delete_no_policy [simp]:
  "pg_delete schools_table d uid fs ss = ss"
  "pg_delete profiles_table d uid fp ps = ps"
  "pg_delete user_roles_table d uid fr rs = rs"
  by (simp_all add: pg_delete_def targeted_def schools_visible profiles_visible
      user_roles_visible)

lemma pg_update_user_roles [simp]:
  "pg_update user_roles_table now d uid flt asg rows = Inr rows"
  by (rule pg_update_no_policy) (simp add: user_roles_visible)

lemma filter_map_unchanged:
  "(\<And>r. r \<in> set xs \<Longrightarrow> P (f r) = P r \<and> (P r \<longrightarrow> f r = r))
     \<Longrightarrow> filter P (map f xs) = filter P xs"
  by (induction xs) auto

text \<open>The profiles of a user after a request of somebody else.\<close>

lemma profiles_of_other_unchanged:
  assumes "exec now uid req d = Inr d'" and "uid \<noteq> Some u"
  shows "filter (\<lambda>r. profile.user_id r = u) (profiles d')
       = filter (\<lambda>r. profile.user_id r = u) (profiles d)"
proof (cases req)
  case (Insert_profiles new)
  with assms show ?thesis
    by (auto dest!: commit_Inr pg_insert_Inr simp: profiles_visible)
next
  case (Update_profiles flt asg)
  with assms obtain rows where r: "pg_update profiles_table now d uid flt asg (profiles d) = Inr rows"
    and d': "d' = d\<lparr>profiles := rows\<rparr>"
    by (auto dest!: commit_Inr)
  note m = pg_update_Inr [OF r]
  have "filter (\<lambda>r. profile.user_id r = u) rows = filter (\<lambda>r. profile.user_id r = u) (profiles d)"
    unfolding m(1) using m(2) assms(2)
    by (intro filter_map_unchanged) (auto simp: targeted_def profiles_visible)
  with d' show ?thesis by simp
qed (use assms in \<open>auto dest!: commit_Inr\<close>)

lemma take_map_unchanged:
  "(\<And>r. r \<in> set xs \<Longrightarrow> k (f r) = k r) \<Longrightarrow> take (length xs) (map k (map f xs)) = map k xs"
  by (induction xs) auto

lemma records_persist:
  assumes "exec now uid req d = Inr d'"
  shows "take (length (schools d)) (map admin_id (schools d')) = map admin_id (schools d)"
    and "take (length (profiles d)) (map profile.user_id (profiles d'))
         = map profile.user_id (profiles d)"
    and "take (length (user_roles d)) (user_roles d') = user_roles d"
proof -
  show "take (length (schools d)) (map admin_id (schools d')) = map admin_id (schools d)"
  proof (cases req)
    case (Update_schools flt asg)
    with assms obtain rows where r: "pg_update schools_table now d uid flt asg (schools d) = Inr rows"
      and d': "d' = d\<lparr>schools := rows\<rparr>"
      by (auto dest!: commit_Inr)
    note m = pg_update_Inr [OF r]
    have "take (length (schools d)) (map admin_id rows) = map admin_id (schools d)"
      unfolding m(1) using m(2)
      by (intro take_map_unchanged) (auto simp: targeted_def schools_visible)
    with d' show ?thesis by simp
  qed (use assms in \<open>auto dest!: commit_Inr pg_insert_Inr\<close>)
  show "take (length (profiles d)) (map profile.user_id (profiles d'))
         = map profile.user_id (profiles d)"
  proof (cases req)
    case (Update_profiles flt asg)
    with assms obtain rows where r: "pg_update profiles_table now d uid flt asg (profiles d) = Inr rows"
      and d': "d' = d\<lparr>profiles := rows\<rparr>"
      by (auto dest!: commit_Inr)
    note m = pg_update_Inr [OF r]
    have "take (length (profiles d)) (map profile.user_id rows) = map profile.user_id (profiles d)"
      unfolding m(1) using m(2)
      by (intro take_map_unchanged) (auto simp: targeted_def profiles_visible)
    with d' show ?thesis by simp
  qed (use assms in \<open>auto dest!: commit_Inr pg_insert_Inr\<close>)
  show "take (length (user_roles d)) (user_roles d') = user_roles d"
    by (cases req) (use assms in \<open>auto dest!: commit_Inr pg_insert_Inr\<close>)
qed

subsection \<open>The unique index on school codes\<close>

text \<open>
  The unique index on \<^verbatim>\<open>schools.school_code\<close>: school codes that are distinct stay
  distinct through every accepted request, so they are in every database that a run
  from the empty one reaches.
\<close>

lemma pg_update_rows_distinct:
  assumes "\<And>rows new. unique_violation t rows new = None \<Longrightarrow> k new \<notin> k ` set rows"
    and "distinct (map k (acc @ rows))"
    and "pg_update_rows t now d uid flt asg acc rows = Inr rows'"
  shows "distinct (map k rows')"
  using assms(2,3)
proof (induction rows arbitrary: acc)
  case Nil
  then show ?case by simp
next
  case (Cons a rows)
  show ?case
  proof (cases "targeted t UPDATE d uid flt a")
    case True
    let ?new = "before_update t now (asg a)"
    from True Cons.prems(2) have u: "unique_violation t (acc @ rows) ?new = None"
      and rest: "pg_update_rows t now d uid flt asg (acc @ [?new]) rows = Inr rows'"
      by (auto simp: Let_def split: if_splits option.splits)
    from assms(1) [OF u] Cons.prems(1) have "distinct (map k ((acc @ [?new]) @ rows))"
      by auto
    from Cons.IH [OF this rest] show ?thesis .
  next
    case False
    with Cons.prems(2) have "pg_update_rows t now d uid flt asg (acc @ [a]) rows = Inr rows'"
      by simp
    from Cons.IH [OF _ this] Cons.prems(1) show ?thesis by simp
  qed
qed

lemma schools_unique_None:
  "schools_unique rows new = None \<Longrightarrow> school.school_code new \<notin> school.school_code ` set rows"
  by (auto simp: schools_unique_def list_ex_iff split: if_splits)

lemma school_codes_stay_unique:
  assumes "distinct (map school.school_code (schools d))" and "exec now uid req d = Inr d'"
  shows "distinct (map school.school_code (schools d'))"
proof (cases req)
  case (Insert_schools new)
  with assms show ?thesis
    by (auto dest!: commit_Inr pg_insert_Inr schools_unique_None)
next
  case (Update_schools flt asg)
  with assms(2) obtain rows where
    r: "pg_update_rows schools_table now d uid flt asg [] (schools d) = Inr rows"
    and d': "d' = d\<lparr>schools := rows\<rparr>"
    by (auto simp: pg_update_def dest!: commit_Inr)
  have "distinct (map school.school_code rows)"
    by (rule pg_update_rows_distinct [OF _ _ r]) (use assms(1) in \<open>simp_all add: schools_unique_None\<close>)
  with d' show ?thesis by simp
qed (use assms in \<open>auto dest!: commit_Inr\<close>)

lemma run_school_codes_unique:
  "distinct (map school.school_code (schools d)) \<Longrightarrow> run rs d = Inr d'
     \<Longrightarrow> distinct (map school.school_code (schools d'))"
proof (induction rs arbitrary: d)
  case Nil
  then show ?case by simp
next
  case (Cons x rs)
  obtain now uid req where x: "x = (now, uid, req)" by (cases x)
  with Cons.prems(2) obtain d1 where 1: "exec now uid req d = Inr d1" and 2: "run rs d1 = Inr d'"
    by (auto split: sum.splits simp del: exec.simps)
  from Cons.IH [OF school_codes_stay_unique [OF Cons.prems(1) 1] 2] show ?case .
qed

lemma reachable_school_codes_unique:
  "run rs empty_db = Inr d \<Longrightarrow> distinct (map school.school_code (schools d))"
  by (rule run_school_codes_unique [of empty_db]) (simp_all add: empty_db_def)

text \<open>
  An update of a tenant-scoped table, for any of the three policy lists: the new row of
  every row worked on is in a school of the caller, and the rows of a school of somebody
  else are left as they are.
\<close>

lemma resource_update_accepted:
  fixes t :: "('a resource_scheme) table"
  assumes vis: "\<And>row. row_visible (policies t) UPDATE d uid row
                   = is_school_admin d uid (Some (resource.school_code row))"
    and chk: "\<And>row. check_ok (policies t) UPDATE d uid row
                   = is_school_admin d uid (Some (resource.school_code row))"
    and trg: "before_update t = update_updated_at_column"
    and acc: "pg_update t now d uid flt asg rows = Inr rows'"
  shows "\<forall>r\<in>set rows. targeted t UPDATE d uid flt r
           \<longrightarrow> is_school_admin d uid (Some (resource.school_code (asg r)))"
    and "s \<in> set (schools d) \<Longrightarrow> distinct (map school.school_code (schools d))
         \<Longrightarrow> uid \<noteq> Some (admin_id s)
         \<Longrightarrow> filter (\<lambda>r. resource.school_code r = school.school_code s) rows'
             = filter (\<lambda>r. resource.school_code r = school.school_code s) rows"
proof -
  note m = pg_update_Inr [OF acc]
  show new: "\<forall>r\<in>set rows. targeted t UPDATE d uid flt r
           \<longrightarrow> is_school_admin d uid (Some (resource.school_code (asg r)))"
    using m(2) by (auto simp: chk trg)
  assume s: "s \<in> set (schools d)" "distinct (map school.school_code (schools d))"
    and other: "uid \<noteq> Some (admin_id s)"
  have adm: "\<not> is_school_admin d uid (Some (school.school_code s))"
    using is_school_admin_unique [OF s] other by simp
  show "filter (\<lambda>r. resource.school_code r = school.school_code s) rows'
      = filter (\<lambda>r. resource.school_code r = school.school_code s) rows"
    unfolding m(1) using new adm
    by (intro filter_map_unchanged) (auto simp: targeted_def vis trg)
qed

lemma pg_update_rejected:
  assumes "r \<in> set rows" and "targeted t UPDATE d uid flt r"
    and "\<not> check_ok (policies t) UPDATE d uid (before_update t now (asg r))"
  shows "\<exists>e. pg_update t now d uid flt asg rows = Inl e"
proof (cases "pg_update t now d uid flt asg rows")
  case (Inr rows')
  from pg_update_Inr(2) [OF Inr assms(1,2)] assms(3) show ?thesis by simp
qed simp

lemma commit_Inl: "res = Inl e \<Longrightarrow> commit res store = Inl e"
  by (simp add: commit_def)

lemma get_user_school_code_Some:
  "get_user_school_code d (Some u)
   = (case filter (\<lambda>r. profile.user_id r = u) (profiles d) of
        [] \<Rightarrow> None | r # _ \<Rightarrow> profile.school_code r)"
  by (simp add: get_user_school_code_def is_true_def)

lemma school_code_of_other_unchanged:
  assumes "exec now uid req d = Inr d'" and "uid \<noteq> Some u"
  shows "get_user_school_code d' (Some u) = get_user_school_code d (Some u)"
  using profiles_of_other_unchanged [OF assms] by (simp add: get_user_school_code_Some)

lemma roles_kept:
  assumes "exec now uid req d = Inr d'" and "has_role d v r"
  shows "has_role d' v r"
proof -
  have "set (user_roles d) \<subseteq> set (user_roles d')"
    using records_persist(3) [OF assms(1)] set_take_subset [of "length (user_roles d)" "user_roles d'"]
    by simp
  with assms(2) show ?thesis by (auto simp: has_role_iff)
qed

lemma filter_map_commute:
  "(\<And>r. r \<in> set xs \<Longrightarrow> P (f r) = P r) \<Longrightarrow> filter P (map f xs) = map f (filter P xs)"
  by (induction xs) auto

lemma exec_insert_schools_profiles:
  "exec now uid (Insert_schools new) d = Inr d1 \<Longrightarrow> profiles d1 = profiles d"
  by (auto dest!: commit_Inr)

lemma createSchool_keeps_membership:
  assumes c: "createSchool now now' new_id user name' schoolCode d = (err, data, d')"
    and m: "get_user_school_code d (Some u) \<noteq> None"
  shows "get_user_school_code d' (Some u) \<noteq> None"
proof (cases user)
  case None
  with c m show ?thesis by (simp add: createSchool_def)
next
  case (Some uid)
  define code where "code = replace_non_A_Z_0_9 (toUpperCase schoolCode)"
  define new where "new = default_timestamps now
      \<lparr>created_at = 0, updated_at = 0, school.id_col = new_id, name = name',
       school.school_code = code, admin_id = uid\<rparr>"
  define join where "join = Update_profiles (\<lambda>r. profile.user_id r = uid)
      (\<lambda>r. r\<lparr>profile.school_code := Some code\<rparr>)"
  show ?thesis
  proof (cases "exec now (Some uid) (Insert_schools new) d")
    case (Inl e)
    with c Some m show ?thesis
      by (simp add: createSchool_def Let_def code_def new_def del: exec.simps)
  next
    case (Inr d1)
    have p1: "profiles d1 = profiles d" using Inr by (rule exec_insert_schools_profiles)
    have m1: "get_user_school_code d1 (Some u) \<noteq> None"
      using m by (simp add: get_user_school_code_Some p1)
    show ?thesis
    proof (cases "exec now' (Some uid) join d1")
      case (Inl e)
      with c Some Inr have "d' = d1"
        by (simp add: createSchool_def Let_def code_def new_def join_def del: exec.simps)
      with m1 show ?thesis by simp
    next
      case d2: (Inr d2)
      with c Some Inr have d': "d' = d2"
        by (simp add: createSchool_def Let_def code_def new_def join_def del: exec.simps)
      from d2 obtain rows where
        r: "pg_update profiles_table now' d1 (Some uid) (\<lambda>r. profile.user_id r = uid)
              (\<lambda>r. r\<lparr>profile.school_code := Some code\<rparr>) (profiles d1) = Inr rows"
        and p2: "d2 = d1\<lparr>profiles := rows\<rparr>"
        by (auto simp: join_def dest!: commit_Inr)
      let ?f = "\<lambda>r. if targeted profiles_table UPDATE d1 (Some uid) (\<lambda>r. profile.user_id r = uid) r
                 then update_updated_at_column now' (r\<lparr>profile.school_code := Some code\<rparr>)
                 else r"
      have rows: "rows = map ?f (profiles d1)"
        using pg_update_Inr(1) [OF r] by simp
      have "filter (\<lambda>r. profile.user_id r = u) rows
          = map ?f (filter (\<lambda>r. profile.user_id r = u) (profiles d1))"
        unfolding rows by (intro filter_map_commute) simp
      moreover have "profile.school_code r \<noteq> None \<Longrightarrow> profile.school_code (?f r) \<noteq> None" for r
        by simp
      ultimately show ?thesis
        using m1 unfolding d' p2
        by (auto simp: get_user_school_code_Some split: list.splits)
    qed
  qed
qed

lemma demo_roles:
  "has_role demo_db (Some 1) (Some Admin)" "has_role demo_db (Some 4) (Some Admin)"
  "has_role demo_db (Some 2) (Some Student)" "\<not> has_role demo_db (Some 2) (Some Admin)"
  by (simp_all add: has_role_iff demo_db_def)

lemma demo_retitle:
  "exec 40 (Some 1) retitle_notice demo_db
   = Inr (demo_db\<lparr>notices := [exam_notice\<lparr>updated_at := 40, resource.title := ''Exam moved''\<rparr>]\<rparr>)"
  by (simp add: retitle_notice_def demo_tables pg_update_def targeted_def notices_visible
      demo_rows demo_admins commit_def pkey_unique_def update_updated_at_column_def)
    (simp add: exam_notice_def)

lemma createSchool_error:
  "fst (createSchool now now' new_id (Some uid) name' schoolCode d)
   = (case exec now (Some uid)
             (Insert_schools (default_timestamps now
                \<lparr>created_at = 0, updated_at = 0, school.id_col = new_id, name = name',
                 school.school_code = replace_non_A_Z_0_9 (toUpperCase schoolCode),
                 admin_id = uid\<rparr>)) d of
        Inl e \<Rightarrow> Some (PostgrestError e) | Inr d1 \<Rightarrow> None)"
  by (simp add: createSchool_def Let_def del: exec.simps split: sum.splits)

lemma demo_second_school:
  "fst (createSchool 40 41 102 (Some 1) ''Second'' ''NEWSCH01'' demo_db) = None"
proof -
  have n: "replace_non_A_Z_0_9 (toUpperCase ''NEWSCH01'') = ''NEWSCH01''"
    by (simp add: replace_non_A_Z_0_9_def toUpperCase_def Let_def)
  have "\<exists>d1. exec 40 (Some 1)
      (Insert_schools (default_timestamps 40
         \<lparr>created_at = 0, updated_at = 0, school.id_col = 102, name = ''Second'',
          school.school_code = ''NEWSCH01'', admin_id = 1\<rparr>)) demo_db = Inr d1"
    by (simp add: pg_insert_def commit_def schools_visible schools_unique_def
        demo_tables default_timestamps_def has_role_iff) (simp add: demo_defs)
  then show ?thesis
    unfolding createSchool_error n by (auto simp del: exec.simps)
qed

lemma fetchRole_rows:
  "fetchRole d u
   = (case single (filter (\<lambda>r. user_role.user_id r = u) (user_roles d)) of
        Some data \<Rightarrow> Some (role data) | None \<Rightarrow> None)"
proof -
  have "filter (\<lambda>r. Some u = Some (user_role.user_id r) \<and> user_role.user_id r = u) (user_roles d)
      = filter (\<lambda>r. user_role.user_id r = u) (user_roles d)"
    by (rule filter_cong) auto
  then show ?thesis
    by (simp add: fetchRole_def pg_select_def user_roles_visible)
qed

lemma fetchRole_of_other_unchanged:
  assumes "exec now uid req d = Inr d'"
  shows "fetchRole d' u = fetchRole d u
       \<or> (\<exists>new. req = Insert_user_roles new \<and> uid = Some u \<and> user_role.user_id new = u)"
proof (cases req)
  case (Insert_user_roles new)
  with assms have "user_roles d' = user_roles d @ [new]" and "uid = Some (user_role.user_id new)"
    by (auto dest!: commit_Inr pg_insert_Inr simp: user_roles_visible)
  with Insert_user_roles show ?thesis
    by (cases "user_role.user_id new = u") (simp_all add: fetchRole_rows)
qed (use assms in \<open>auto dest!: commit_Inr simp: fetchRole_rows\<close>)

lemma duplicate_in_message:
  "includes_str (message (UniqueViolation c)) ''duplicate''"
  "\<not> includes_str (message (RlsViolation ''schools'')) ''duplicate''"
  "\<not> includes_str (error_message NotAuthenticated) ''duplicate''"
  by simp_all

lemma insert_school_taken:
  assumes "has_role d (Some u) (Some Admin)" and "admin_id new = u"
    and "list_ex (\<lambda>s. school.school_code s = school.school_code new) (schools d)"
  shows "\<exists>c. exec now (Some u) (Insert_schools new) d = Inl (UniqueViolation c)"
  using assms by (simp add: pg_insert_def commit_def schools_visible schools_unique_def)

lemma insert_school_free:
  assumes "has_role d (Some u) (Some Admin)" and "admin_id new = u"
    and "\<not> list_ex (\<lambda>s. school.school_code s = school.school_code new) (schools d)"
    and "\<not> list_ex (\<lambda>s. school.id_col s = school.id_col new) (schools d)"
  shows "exec now (Some u) (Insert_schools new) d = Inr (d\<lparr>schools := schools d @ [new]\<rparr>)"
  using assms by (simp add: pg_insert_def commit_def schools_visible schools_unique_def)

lemma exec_update_profiles_frame:
  "exec now uid (Update_profiles flt asg) d = Inr d'
     \<Longrightarrow> schools d' = schools d \<and> user_roles d' = user_roles d"
  by (auto dest!: commit_Inr)

lemma createSchool_taken:
  assumes "has_role d (Some u) (Some Admin)"
    and "list_ex (\<lambda>s. school.school_code s = replace_non_A_Z_0_9 (toUpperCase schoolCode))
           (schools d)"
  shows "\<exists>c. createSchool now now' new_id (Some u) name' schoolCode d
           = (Some (PostgrestError (UniqueViolation c)), None, d)"
proof -
  let ?new = "default_timestamps now
      \<lparr>created_at = 0, updated_at = 0, school.id_col = new_id, name = name',
       school.school_code = replace_non_A_Z_0_9 (toUpperCase schoolCode), admin_id = u\<rparr>"
  have "\<exists>c. exec now (Some u) (Insert_schools ?new) d = Inl (UniqueViolation c)"
    using assms by (intro insert_school_taken) (simp_all add: default_timestamps_def)
  then show ?thesis
    by (auto simp: createSchool_def Let_def simp del: exec.simps)
qed

lemma createSchool_free:
  assumes "has_role d (Some u) (Some Admin)"
    and "\<not> list_ex (\<lambda>s. school.school_code s = replace_non_A_Z_0_9 (toUpperCase schoolCode))
           (schools d)"
    and "\<not> list_ex (\<lambda>s. school.id_col s = new_id) (schools d)"
  shows "\<exists>data d'. createSchool now now' new_id (Some u) name' schoolCode d = (None, data, d')
           \<and> user_roles d' = user_roles d
           \<and> list_ex (\<lambda>s. school.school_code s = replace_non_A_Z_0_9 (toUpperCase schoolCode))
                (schools d')"
proof -
  let ?code = "replace_non_A_Z_0_9 (toUpperCase schoolCode)"
  let ?new = "default_timestamps now
      \<lparr>created_at = 0, updated_at = 0, school.id_col = new_id, name = name',
       school.school_code = ?code, admin_id = u\<rparr>"
  let ?d1 = "d\<lparr>schools := schools d @ [?new]\<rparr>"
  let ?join = "Update_profiles (\<lambda>r. profile.user_id r = u)
      (\<lambda>r. r\<lparr>profile.school_code := Some ?code\<rparr>)"
  have ins: "exec now (Some u) (Insert_schools ?new) d = Inr ?d1"
    using assms by (intro insert_school_free) (simp_all add: default_timestamps_def)
  have new: "school.school_code ?new = ?code" by (simp add: default_timestamps_def)
  show ?thesis
  proof (cases "exec now' (Some u) ?join ?d1")
    case (Inl e)
    with ins have "createSchool now now' new_id (Some u) name' schoolCode d = (None, Some ?new, ?d1)"
      by (simp add: createSchool_def Let_def del: exec.simps)
    with new show ?thesis by simp
  next
    case (Inr d2)
    with ins have "createSchool now now' new_id (Some u) name' schoolCode d = (None, Some ?new, d2)"
      by (simp add: createSchool_def Let_def del: exec.simps)
    moreover from exec_update_profiles_frame [OF Inr]
    have "schools d2 = schools d @ [?new]" "user_roles d2 = user_roles d" by simp_all
    ultimately show ?thesis using new by simp
  qed
qed

lemma trim_no_space:
  "s \<noteq> [] \<Longrightarrow> \<not> is_space (hd s) \<Longrightarrow> \<not> is_space (last s) \<Longrightarrow> trim s = s"
proof -
  have keep: "dropWhile P xs = xs" if "xs \<noteq> []" "\<not> P (hd xs)" for P and xs :: string
    using that by (cases xs) auto
  assume "s \<noteq> []" "\<not> is_space (hd s)" "\<not> is_space (last s)"
  then show ?thesis
    by (simp add: trim_def keep hd_rev)
qed

lemma exec_update_rows:
  "exec now uid (Update_schools f1 a1) d = Inr d' \<Longrightarrow>
     schools d' = map (\<lambda>r. if targeted schools_table UPDATE d uid f1 r
                            then update_updated_at_column now (a1 r) else r) (schools d)"
  "exec now uid (Update_profiles f2 a2) d = Inr d' \<Longrightarrow>
     profiles d' = map (\<lambda>r. if targeted profiles_table UPDATE d uid f2 r
                             then update_updated_at_column now (a2 r) else r) (profiles d)"
  "exec now uid (Update_scholarships f3 a3) d = Inr d' \<Longrightarrow>
     scholarships d' = map (\<lambda>r. if targeted scholarships_table UPDATE d uid f3 r
                                 then update_updated_at_column now (a3 r) else r) (scholarships d)"
  "exec now uid (Update_fees f4 a4) d = Inr d' \<Longrightarrow>
     fees d' = map (\<lambda>r. if targeted fees_table UPDATE d uid f4 r
                         then update_updated_at_column now (a4 r) else r) (fees d)"
  "exec now uid (Update_notices f5 a5) d = Inr d' \<Longrightarrow>
     notices d' = map (\<lambda>r. if targeted notices_table UPDATE d uid f5 r
                            then update_updated_at_column now (a5 r) else r) (notices d)"
  by (auto dest!: commit_Inr pg_update_Inr(1))

text \<open>
  The rows of a school in the three tenant-scoped tables after a request of a caller who
  is not the school's admin.
\<close>

lemma filter_filter_unchanged:
  "(\<And>r. r \<in> set xs \<Longrightarrow> P r \<Longrightarrow> Q r) \<Longrightarrow> filter P (filter Q xs) = filter P xs"
  by (induction xs) auto

lemma tenant_rows_of_other_unchanged:
  assumes t: "t \<in> set (schools d)" "distinct (map school.school_code (schools d))"
    and other: "uid \<noteq> Some (admin_id t)"
    and acc: "exec now uid req d = Inr d'"
  shows "filter (\<lambda>r. resource.school_code r = school.school_code t) (scholarships d')
         = filter (\<lambda>r. resource.school_code r = school.school_code t) (scholarships d)"
    and "filter (\<lambda>r. resource.school_code r = school.school_code t) (fees d')
         = filter (\<lambda>r. resource.school_code r = school.school_code t) (fees d)"
    and "filter (\<lambda>r. resource.school_code r = school.school_code t) (notices d')
         = filter (\<lambda>r. resource.school_code r = school.school_code t) (notices d)"
proof -
  have adm: "\<not> is_school_admin d uid (Some (school.school_code t))"
    using is_school_admin_unique [OF t] other by simp
  have ins: "resource.school_code new \<noteq> school.school_code t"
    if "is_school_admin d uid (Some (resource.school_code new))" for new :: "'a resource_scheme"
    using that adm by auto
  show "filter (\<lambda>r. resource.school_code r = school.school_code t) (scholarships d')
         = filter (\<lambda>r. resource.school_code r = school.school_code t) (scholarships d)"
  proof (cases req)
    case (Insert_scholarships new)
    with acc ins [of new] show ?thesis
      by (auto dest!: commit_Inr pg_insert_Inr simp: scholarships_visible)
  next
    case (Update_scholarships flt asg)
    with acc obtain rows where
      r: "pg_update scholarships_table now d uid flt asg (scholarships d) = Inr rows"
      and d': "d' = d\<lparr>scholarships := rows\<rparr>"
      by (auto dest!: commit_Inr)
    from resource_update_accepted(2) [OF _ _ _ r t other] d' show ?thesis
      by (simp add: scholarships_visible)
  next
    case (Delete_scholarships flt)
    with acc have "scholarships d' = pg_delete scholarships_table d uid flt (scholarships d)"
      by auto
    then show ?thesis
      unfolding pg_delete_def
      by (simp only:) (rule filter_filter_unchanged, use adm in \<open>auto simp: targeted_def scholarships_visible\<close>)
  qed (use acc in \<open>auto dest!: commit_Inr\<close>)
  show "filter (\<lambda>r. resource.school_code r = school.school_code t) (fees d')
         = filter (\<lambda>r. resource.school_code r = school.school_code t) (fees d)"
  proof (cases req)
    case (Insert_fees new)
    with acc ins [of new] show ?thesis
      by (auto dest!: commit_Inr pg_insert_Inr simp: fees_visible)
  next
    case (Update_fees flt asg)
    with acc obtain rows where
      r: "pg_update fees_table now d uid flt asg (fees d) = Inr rows"
      and d': "d' = d\<lparr>fees := rows\<rparr>"
      by (auto dest!: commit_Inr)
    from resource_update_accepted(2) [OF _ _ _ r t other] d' show ?thesis
      by (simp add: fees_visible)
  next
    case (Delete_fees flt)
    with acc have "fees d' = pg_delete fees_table d uid flt (fees d)"
      by auto
    then show ?thesis
      unfolding pg_delete_def
      by (simp only:) (rule filter_filter_unchanged, use adm in \<open>auto simp: targeted_def fees_visible\<close>)
  qed (use acc in \<open>auto dest!: commit_Inr\<close>)
  show "filter (\<lambda>r. resource.school_code r = school.school_code t) (notices d')
         = filter (\<lambda>r. resource.school_code r = school.school_code t) (notices d)"
  proof (cases req)
    case (Insert_notices new)
    with acc ins [of new] show ?thesis
      by (auto dest!: commit_Inr pg_insert_Inr simp: notices_visible)
  next
    case (Update_notices flt asg)
    with acc obtain rows where
      r: "pg_update notices_table now d uid flt asg (notices d) = Inr rows"
      and d': "d' = d\<lparr>notices := rows\<rparr>"
      by (auto dest!: commit_Inr)
    from resource_update_accepted(2) [OF _ _ _ r t other] d' show ?thesis
      by (simp add: notices_visible)
  next
    case (Delete_notices flt)
    with acc have "notices d' = pg_delete notices_table d uid flt (notices d)"
      by auto
    then show ?thesis
      unfolding pg_delete_def
      by (simp only:) (rule filter_filter_unchanged, use adm in \<open>auto simp: targeted_def notices_visible\<close>)
  qed (use acc in \<open>auto dest!: commit_Inr\<close>)
qed

lemma demo_rename_other: "exec 40 (Some 2) rename_other demo_db = Inr demo_db"
  by (simp add: rename_other_def pg_update_def targeted_def profiles_visible commit_def
      demo_db_def)


section \<open>Tenant isolation on reads\<close>

text \<open>
  Claim C1. For a caller whose profile carries the school code \<open>c1\<close>, a scholarship, fee or
  notice row with another school code \<open>c2\<close> does not pass the \<^verbatim>\<open>SELECT\<close> policy, unless the
  caller is the admin of the school with code \<open>c2\<close>. Equivalently, a select on one of the
  three tables returns exactly the rows that pass the filter and whose school code is the
  one in the caller's profile or that of a school the caller administers.
\<close>

theorem tenant_isolation_on_reads:
  fixes s :: scholarship and f :: fee and n :: notice
  shows "(get_user_school_code d uid = Some c1 \<and> c2 \<noteq> c1 \<and> \<not> is_school_admin d uid (Some c2) \<longrightarrow>
      (resource.school_code s = c2 \<longrightarrow> \<not> allow scholarships_policies SELECT d uid s) \<and>
      (resource.school_code f = c2 \<longrightarrow> \<not> allow fees_policies SELECT d uid f) \<and>
      (resource.school_code n = c2 \<longrightarrow> \<not> allow notices_policies SELECT d uid n))
    \<and> pg_select scholarships_table d uid flt_s ss =
        filter (\<lambda>r. (get_user_school_code d uid = Some (resource.school_code r)
                      \<or> is_school_admin d uid (Some (resource.school_code r))) \<and> flt_s r) ss
    \<and> pg_select fees_table d uid flt_f fs =
        filter (\<lambda>r. (get_user_school_code d uid = Some (resource.school_code r)
                      \<or> is_school_admin d uid (Some (resource.school_code r))) \<and> flt_f r) fs
    \<and> pg_select notices_table d uid flt_n ns =
        filter (\<lambda>r. (get_user_school_code d uid = Some (resource.school_code r)
                      \<or> is_school_admin d uid (Some (resource.school_code r))) \<and> flt_n r) ns"
  by (auto simp: allow_simps scholarships_visible fees_visible notices_visible pg_select_def
      scholarships_table_def fees_table_def notices_table_def)

theorem tenant_isolation_on_reads_witness:
  "get_user_school_code demo_db (Some 3) = Some ''SHELBY24'' \<and> ''SPRING24'' \<noteq> ''SHELBY24''
   \<and> \<not> is_school_admin demo_db (Some 3) (Some ''SPRING24'')
   \<and> \<not> allow scholarships_policies SELECT demo_db (Some 3) merit_award
   \<and> \<not> allow fees_policies SELECT demo_db (Some 3) bus_fee
   \<and> \<not> allow notices_policies SELECT demo_db (Some 3) exam_notice
   \<and> pg_select notices_table demo_db (Some 3) (\<lambda>r. True) (notices demo_db) = []
   \<and> pg_select notices_table demo_db (Some 2) (\<lambda>r. True) (notices demo_db) = [exam_notice]"
proof -
  have h: "get_user_school_code demo_db (Some 3) = Some ''SHELBY24'' \<and> ''SPRING24'' \<noteq> ''SHELBY24''
      \<and> \<not> is_school_admin demo_db (Some 3) (Some ''SPRING24'')"
    by (simp add: demo_codes demo_admins)
  note t = tenant_isolation_on_reads [of demo_db _ "''SHELBY24''" "''SPRING24''"
      merit_award bus_fee exam_notice "\<lambda>r. True" "[]" "\<lambda>r. True" "[]" "\<lambda>r. True" "notices demo_db"]
  from t [of "Some 3"] h have denied:
    "\<not> allow scholarships_policies SELECT demo_db (Some 3) merit_award
     \<and> \<not> allow fees_policies SELECT demo_db (Some 3) bus_fee
     \<and> \<not> allow notices_policies SELECT demo_db (Some 3) exam_notice"
    by (simp add: demo_rows)
  from t [of "Some 3"] have other:
    "pg_select notices_table demo_db (Some 3) (\<lambda>r. True) (notices demo_db) = []"
    by (simp add: demo_tables demo_rows demo_codes demo_admins)
  from t [of "Some 2"] have own:
    "pg_select notices_table demo_db (Some 2) (\<lambda>r. True) (notices demo_db) = [exam_notice]"
    by (simp add: demo_tables demo_rows demo_codes demo_admins)
  from h denied other own show ?thesis by simp
qed


section \<open>Admin supremacy\<close>

text \<open>
  Claim C2. Let \<open>t\<close> be a school of the database, school codes being unique as the
  \<^verbatim>\<open>UNIQUE\<close> constraint of \<^verbatim>\<open>schools.school_code\<close> has it, and let \<open>s\<close>, \<open>f\<close> and \<open>n\<close> be
  a scholarship, a fee and a notice with the code of \<open>t\<close>. The identity \<^verbatim>\<open>admin_id\<close> of
  \<open>t\<close> passes the policy of each of the four commands on each row, and the check of an
  updated row that stays in the school; whoever passes the \<^verbatim>\<open>INSERT\<close>, \<^verbatim>\<open>UPDATE\<close> or
  \<^verbatim>\<open>DELETE\<close> policy on one of the rows is that identity. So a caller who is not the admin,
  a student whose profile carries the school's code among them, gets the row level
  security error for an insert into \<^verbatim>\<open>fees\<close>, and every request of such a caller that
  is accepted leaves the school's rows in the three tables as they were.
\<close>

theorem admin_supremacy:
  fixes s :: scholarship and f :: fee and n :: notice
  assumes "t \<in> set (schools d)" and "distinct (map school.school_code (schools d))"
    and "resource.school_code s = school.school_code t"
    and "resource.school_code f = school.school_code t"
    and "resource.school_code n = school.school_code t"
  shows "(\<forall>c. allow scholarships_policies c d (Some (admin_id t)) s
            \<and> allow fees_policies c d (Some (admin_id t)) f
            \<and> allow notices_policies c d (Some (admin_id t)) n)
    \<and> check_ok scholarships_policies UPDATE d (Some (admin_id t)) s
    \<and> check_ok fees_policies UPDATE d (Some (admin_id t)) f
    \<and> check_ok notices_policies UPDATE d (Some (admin_id t)) n
    \<and> (\<forall>c. c \<noteq> SELECT \<longrightarrow>
          (allow scholarships_policies c d uid s \<longrightarrow> uid = Some (admin_id t))
        \<and> (allow fees_policies c d uid f \<longrightarrow> uid = Some (admin_id t))
        \<and> (allow notices_policies c d uid n \<longrightarrow> uid = Some (admin_id t)))
    \<and> (uid \<noteq> Some (admin_id t) \<longrightarrow> exec now uid (Insert_fees f) d = Inl (RlsViolation ''fees''))
    \<and> (uid \<noteq> Some (admin_id t) \<and> exec now uid req d = Inr d' \<longrightarrow>
          filter (\<lambda>r. resource.school_code r = school.school_code t) (scholarships d')
          = filter (\<lambda>r. resource.school_code r = school.school_code t) (scholarships d)
        \<and> filter (\<lambda>r. resource.school_code r = school.school_code t) (fees d')
          = filter (\<lambda>r. resource.school_code r = school.school_code t) (fees d)
        \<and> filter (\<lambda>r. resource.school_code r = school.school_code t) (notices d')
          = filter (\<lambda>r. resource.school_code r = school.school_code t) (notices d))"
proof -
  have adm: "\<And>u. is_school_admin d u (Some (school.school_code t)) = (u = Some (admin_id t))"
    using assms(1,2) by (rule is_school_admin_unique)
  have 1: "\<And>c. allow scholarships_policies c d (Some (admin_id t)) s
            \<and> allow fees_policies c d (Some (admin_id t)) f
            \<and> allow notices_policies c d (Some (admin_id t)) n"
    subgoal for c
      by (cases c) (simp_all add: allow_simps scholarships_visible fees_visible notices_visible
          assms(3-5) adm)
    done
  have 2: "\<And>c. c \<noteq> SELECT \<Longrightarrow>
          (allow scholarships_policies c d uid s \<longrightarrow> uid = Some (admin_id t))
        \<and> (allow fees_policies c d uid f \<longrightarrow> uid = Some (admin_id t))
        \<and> (allow notices_policies c d uid n \<longrightarrow> uid = Some (admin_id t))"
    subgoal for c
      by (cases c) (simp_all add: allow_simps scholarships_visible fees_visible notices_visible
          assms(3-5) adm)
    done
  have 3: "uid \<noteq> Some (admin_id t) \<Longrightarrow> exec now uid (Insert_fees f) d = Inl (RlsViolation ''fees'')"
    by (rule exec_insert_denied) (simp add: fees_visible assms(4) adm)
  have 4: "check_ok scholarships_policies UPDATE d (Some (admin_id t)) s
    \<and> check_ok fees_policies UPDATE d (Some (admin_id t)) f
    \<and> check_ok notices_policies UPDATE d (Some (admin_id t)) n"
    by (simp add: scholarships_visible fees_visible notices_visible assms(3-5) adm)
  have 5: "filter (\<lambda>r. resource.school_code r = school.school_code t) (scholarships d')
          = filter (\<lambda>r. resource.school_code r = school.school_code t) (scholarships d)
        \<and> filter (\<lambda>r. resource.school_code r = school.school_code t) (fees d')
          = filter (\<lambda>r. resource.school_code r = school.school_code t) (fees d)
        \<and> filter (\<lambda>r. resource.school_code r = school.school_code t) (notices d')
          = filter (\<lambda>r. resource.school_code r = school.school_code t) (notices d)"
    if "uid \<noteq> Some (admin_id t)" "exec now uid req d = Inr d'"
    using tenant_rows_of_other_unchanged [OF assms(1,2) that] by simp
  from 1 2 3 4 5 show ?thesis by blast
qed

theorem admin_supremacy_witness:
  "springfield \<in> set (schools demo_db) \<and> distinct (map school.school_code (schools demo_db))
   \<and> get_user_school_code demo_db (Some 2) = Some (school.school_code springfield)
   \<and> Some 2 \<noteq> Some (admin_id springfield)
   \<and> allow fees_policies INSERT demo_db (Some 1) bus_fee
   \<and> allow notices_policies DELETE demo_db (Some 1) exam_notice
   \<and> allow scholarships_policies UPDATE demo_db (Some 1) merit_award
   \<and> \<not> allow notices_policies UPDATE demo_db (Some 2) exam_notice
   \<and> exec 30 (Some 2) (Insert_fees bus_fee) demo_db = Inl (RlsViolation ''fees'')
   \<and> exec 40 (Some 2) rename_other demo_db = Inr demo_db
   \<and> filter (\<lambda>r. resource.school_code r = school.school_code springfield) (notices demo_db)
       = filter (\<lambda>r. resource.school_code r = school.school_code springfield) (notices demo_db)"
proof -
  have h: "springfield \<in> set (schools demo_db)" "distinct (map school.school_code (schools demo_db))"
    "resource.school_code merit_award = school.school_code springfield"
    "resource.school_code bus_fee = school.school_code springfield"
    "resource.school_code exam_notice = school.school_code springfield"
    by (simp_all add: demo_tables demo_rows)
  have m: "get_user_school_code demo_db (Some 2) = Some (school.school_code springfield)
    \<and> Some (2::nat) \<noteq> Some (admin_id springfield)"
    by (simp add: demo_codes demo_rows)
  from admin_supremacy [OF h, of "Some 2" 30] m h(1,2) have
    "allow fees_policies INSERT demo_db (Some 1) bus_fee
     \<and> allow notices_policies DELETE demo_db (Some 1) exam_notice
     \<and> allow scholarships_policies UPDATE demo_db (Some 1) merit_award
     \<and> \<not> allow notices_policies UPDATE demo_db (Some 2) exam_notice
     \<and> exec 30 (Some 2) (Insert_fees bus_fee) demo_db = Inl (RlsViolation ''fees'')"
    by (auto simp: demo_rows)
  moreover from admin_supremacy [OF h, where uid = "Some 2" and now = 40
      and req = rename_other and d' = demo_db] m demo_rename_other
  have "filter (\<lambda>r. resource.school_code r = school.school_code springfield) (notices demo_db)
       = filter (\<lambda>r. resource.school_code r = school.school_code springfield) (notices demo_db)"
    by blast
  ultimately show ?thesis using m h(1,2) demo_rename_other by blast
qed


section \<open>The tenant directory\<close>

text \<open>
  Claim C3. On \<^verbatim>\<open>schools\<close>: every caller, with a session or without, passes the \<^verbatim>\<open>SELECT\<close>
  policy on every row; a row passes the \<^verbatim>\<open>INSERT\<close> policy exactly when the caller has the
  role admin and is the row's \<^verbatim>\<open>admin_id\<close>; an existing row passes the \<^verbatim>\<open>UPDATE\<close> policy
  exactly when the caller is its \<^verbatim>\<open>admin_id\<close>, and the updated row is checked by the
  same expression; no row passes a \<^verbatim>\<open>DELETE\<close> policy. So an
  insert by a caller who is not the row's \<^verbatim>\<open>admin_id\<close> gets the row level security
  error, and a delete removes nothing, whoever sends it.
\<close>

theorem tenant_directory_policy:
  "allow schools_policies SELECT d uid row
   \<and> (allow schools_policies INSERT d uid row
        \<longleftrightarrow> has_role d uid (Some Admin) \<and> uid = Some (admin_id row))
   \<and> (allow schools_policies UPDATE d uid row \<longleftrightarrow> uid = Some (admin_id row))
   \<and> (check_ok schools_policies UPDATE d uid row \<longleftrightarrow> uid = Some (admin_id row))
   \<and> \<not> allow schools_policies DELETE d uid row
   \<and> (uid \<noteq> Some (admin_id row)
        \<longrightarrow> exec now uid (Insert_schools row) d = Inl (RlsViolation ''schools''))
   \<and> exec now uid (Delete_schools flt) d = Inr d"
  by (simp add: allow_simps schools_visible exec_insert_denied exec_delete_noop
      del: exec.simps)

theorem tenant_directory_policy_witness:
  "allow schools_policies SELECT demo_db None springfield
   \<and> has_role demo_db (Some 1) (Some Admin) \<and> allow schools_policies INSERT demo_db (Some 1) springfield
   \<and> \<not> has_role demo_db (Some 2) (Some Admin)
   \<and> \<not> allow schools_policies INSERT demo_db (Some 2) (springfield\<lparr>admin_id := 2\<rparr>)
   \<and> allow schools_policies UPDATE demo_db (Some 1) springfield
   \<and> \<not> allow schools_policies UPDATE demo_db (Some 4) springfield
   \<and> Some 4 \<noteq> Some (admin_id springfield)
   \<and> exec 30 (Some 4) (Insert_schools springfield) demo_db = Inl (RlsViolation ''schools'')
   \<and> exec 30 (Some 1) (Delete_schools (\<lambda>r. True)) demo_db = Inr demo_db"
proof -
  have r: "has_role demo_db (Some 1) (Some Admin)" "\<not> has_role demo_db (Some 2) (Some Admin)"
    by (simp_all add: has_role_iff demo_db_def)
  have a: "Some (4::nat) \<noteq> Some (admin_id springfield)" by (simp add: demo_rows)
  from tenant_directory_policy [of demo_db None springfield 30 "\<lambda>r. True"]
    tenant_directory_policy [of demo_db "Some 1" springfield 30 "\<lambda>r. True"]
    tenant_directory_policy [of demo_db "Some 2" "springfield\<lparr>admin_id := 2\<rparr>" 30 "\<lambda>r. True"]
    tenant_directory_policy [of demo_db "Some 4" springfield 30 "\<lambda>r. True"]
    r a show ?thesis
    by (simp add: demo_rows)
qed


section \<open>Profiles\<close>

text \<open>
  Claim C4. On \<^verbatim>\<open>profiles\<close>, a row passes the \<^verbatim>\<open>SELECT\<close> policy, the \<^verbatim>\<open>UPDATE\<close> policy
  (as the existing row, and as the updated row) and the \<^verbatim>\<open>INSERT\<close> policy exactly when
  its \<^verbatim>\<open>user_id\<close> is the caller. So for two distinct identities \<open>u1\<close> and \<open>u2\<close>, no select,
  update or insert by \<open>u1\<close> is allowed on a row whose \<^verbatim>\<open>user_id\<close> is \<open>u2\<close>, a select
  by \<open>u1\<close> returns no such row, and every accepted request of \<open>u1\<close> leaves the profiles
  of \<open>u2\<close> as they were.
\<close>

theorem self_profile_restriction:
  "(allow profiles_policies SELECT d uid row \<longleftrightarrow> uid = Some (profile.user_id row))
   \<and> (allow profiles_policies UPDATE d uid row \<longleftrightarrow> uid = Some (profile.user_id row))
   \<and> (check_ok profiles_policies UPDATE d uid row \<longleftrightarrow> uid = Some (profile.user_id row))
   \<and> (allow profiles_policies INSERT d uid row \<longleftrightarrow> uid = Some (profile.user_id row))
   \<and> (u1 \<noteq> u2 \<and> profile.user_id row = u2 \<longrightarrow>
        \<not> allow profiles_policies SELECT d (Some u1) row
        \<and> \<not> allow profiles_policies UPDATE d (Some u1) row
        \<and> \<not> allow profiles_policies INSERT d (Some u1) row
        \<and> row \<notin> set (pg_select profiles_table d (Some u1) flt rows))
   \<and> (u1 \<noteq> u2 \<and> exec now (Some u1) req d = Inr d' \<longrightarrow>
        filter (\<lambda>r. profile.user_id r = u2) (profiles d')
        = filter (\<lambda>r. profile.user_id r = u2) (profiles d))"
  using profiles_of_other_unchanged [of now "Some u1" req d d' u2]
  by (auto simp: allow_simps profiles_visible pg_select_def simp del: exec.simps)

theorem self_profile_restriction_witness:
  "(2::nat) \<noteq> 3 \<and> profile.user_id (profiles demo_db ! 2) = 3
   \<and> \<not> allow profiles_policies SELECT demo_db (Some 2) (profiles demo_db ! 2)
   \<and> \<not> allow profiles_policies UPDATE demo_db (Some 2) (profiles demo_db ! 2)
   \<and> \<not> allow profiles_policies INSERT demo_db (Some 2) (profiles demo_db ! 2)
   \<and> allow profiles_policies SELECT demo_db (Some 3) (profiles demo_db ! 2)
   \<and> profiles demo_db ! 2
       \<notin> set (pg_select profiles_table demo_db (Some 2) (\<lambda>r. True) (profiles demo_db))
   \<and> exec 40 (Some 2) rename_other demo_db = Inr demo_db
   \<and> filter (\<lambda>r. profile.user_id r = 3) (profiles demo_db)
       = filter (\<lambda>r. profile.user_id r = 3) (profiles demo_db)"
proof -
  have h: "(2::nat) \<noteq> 3 \<and> profile.user_id (profiles demo_db ! 2) = 3"
    by (simp add: demo_db_def)
  from self_profile_restriction [where d = demo_db and uid = "Some 3"
      and row = "profiles demo_db ! 2" and ?u1.0 = 2 and ?u2.0 = 3 and flt = "\<lambda>r. True"
      and rows = "profiles demo_db" and now = 40 and req = rename_other and d' = demo_db]
    h demo_rename_other show ?thesis by simp
qed


section \<open>Tenant membership\<close>

text \<open>
  Claim C5 says that no exposed operation sets a non-null school code of a profile back to
  \<^verbatim>\<open>NULL\<close>. The policy \<^verbatim>\<open>Users can update own profile\<close> looks at \<^verbatim>\<open>user_id\<close> only: in
  the example database the request of student 2 that sets the own \<^verbatim>\<open>school_code\<close> to
  \<^verbatim>\<open>NULL\<close> is accepted, and the student's school code is \<^verbatim>\<open>NULL\<close> after it.
\<close>

theorem membership_reset_counterexample:
  "get_user_school_code demo_db (Some 2) = Some ''SPRING24''
   \<and> \<not> isl (exec 40 (Some 2) leave_school demo_db)
   \<and> get_user_school_code (projr (exec 40 (Some 2) leave_school demo_db)) (Some 2) = None"
  by (simp add: demo_codes)
    (simp add: leave_school_def demo_db_def pg_update_def targeted_def profiles_visible
      commit_def profiles_unique_def get_user_school_code_Some update_updated_at_column_def)

text \<open>
  Claim C5 as amended. The school code of a user's profile is the same after every
  accepted request of another caller as before it; \<^verbatim>\<open>createSchool\<close>, the operation of the
  client code that writes the column, leaves the school code of every profile non-null
  that was non-null; and a role a user has, the user has after every accepted request.
  The request of the profile's owner is the one that can set the code to \<^verbatim>\<open>NULL\<close>.
\<close>

theorem membership_kept_by_others:
  "(exec now uid req d = Inr d' \<and> uid \<noteq> Some u
      \<longrightarrow> get_user_school_code d' (Some u) = get_user_school_code d (Some u))
   \<and> (createSchool now now' new_id user name' schoolCode d = (err, data, d'')
        \<and> get_user_school_code d (Some u) \<noteq> None
      \<longrightarrow> get_user_school_code d'' (Some u) \<noteq> None)
   \<and> (exec now uid req d = Inr d' \<and> has_role d v r \<longrightarrow> has_role d' v r)"
  using school_code_of_other_unchanged [of now uid req d d' u]
    createSchool_keeps_membership [of now now' new_id user name' schoolCode d err data d'' u]
    roles_kept [of now uid req d d' v r]
  by blast

theorem membership_kept_by_others_witness:
  "exec 40 (Some 1) retitle_notice demo_db
     = Inr (demo_db\<lparr>notices := [exam_notice\<lparr>updated_at := 40, resource.title := ''Exam moved''\<rparr>]\<rparr>)
   \<and> Some (1::nat) \<noteq> Some 2
   \<and> get_user_school_code
        (demo_db\<lparr>notices := [exam_notice\<lparr>updated_at := 40, resource.title := ''Exam moved''\<rparr>]\<rparr>)
        (Some 2) = Some ''SPRING24''
   \<and> has_role demo_db (Some 2) (Some Student)
   \<and> has_role
        (demo_db\<lparr>notices := [exam_notice\<lparr>updated_at := 40, resource.title := ''Exam moved''\<rparr>]\<rparr>)
        (Some 2) (Some Student)
   \<and> get_user_school_code demo_db (Some 1) \<noteq> None
   \<and> fst (createSchool 40 41 102 (Some 1) ''Second'' ''NEWSCH01'' demo_db) = None
   \<and> get_user_school_code
        (snd (snd (createSchool 40 41 102 (Some 1) ''Second'' ''NEWSCH01'' demo_db))) (Some 1)
       \<noteq> None"
proof -
  let ?d' = "demo_db\<lparr>notices := [exam_notice\<lparr>updated_at := 40, resource.title := ''Exam moved''\<rparr>]\<rparr>"
  let ?c = "createSchool 40 41 102 (Some 1) ''Second'' ''NEWSCH01'' demo_db"
  have c: "?c = (fst ?c, fst (snd ?c), snd (snd ?c))"
    by simp
  have m: "get_user_school_code demo_db (Some 1) \<noteq> None"
    using demo_codes(1) by simp
  have ne: "Some (1::nat) \<noteq> Some 2" by simp
  note t = membership_kept_by_others [where now = 40 and uid = "Some 1" and req = retitle_notice
      and d = demo_db and d' = ?d' and v = "Some 2" and r = "Some Student"
      and now' = 41 and new_id = 102 and user = "Some 1" and name' = "''Second''"
      and schoolCode = "''NEWSCH01''" and err = "fst ?c" and data = "fst (snd ?c)"
      and d'' = "snd (snd ?c)"]
  from t [where u = 2] demo_retitle ne
  have 1: "get_user_school_code ?d' (Some 2) = get_user_school_code demo_db (Some 2)"
    by blast
  from t [where u = 2] demo_retitle demo_roles(3)
  have 2: "has_role ?d' (Some 2) (Some Student)"
    by blast
  from t [where u = 1] c m
  have 3: "get_user_school_code (snd (snd ?c)) (Some 1) \<noteq> None"
    by blast
  from 1 have 1: "get_user_school_code ?d' (Some 2) = Some ''SPRING24''"
    by (simp only: demo_codes(2))
  from 1 2 3 demo_retitle ne demo_roles(3) m demo_second_school
  show ?thesis by blast
qed


section \<open>Roles\<close>

text \<open>
  Claim C6 says that the role a later lookup observes is the role inserted at signup.
  \<^verbatim>\<open>UNIQUE (user_id, role)\<close> admits a second row for a user, with the other role, and
  the policy \<^verbatim>\<open>Users can insert own role\<close> lets the user insert it. In the example
  database student 2 does so: the request is accepted, the lookup of \<^verbatim>\<open>fetchRole\<close>, which
  expects a single row, then gives no role, and \<^verbatim>\<open>has_role\<close> holds for admin.
\<close>

theorem role_lookup_counterexample:
  "fetchRole demo_db 2 = Some Student
   \<and> \<not> isl (exec 40 (Some 2) claim_admin demo_db)
   \<and> fetchRole (projr (exec 40 (Some 2) claim_admin demo_db)) 2 = None
   \<and> has_role (projr (exec 40 (Some 2) claim_admin demo_db)) (Some 2) (Some Admin)"
  by (simp add: claim_admin_def fetchRole_rows has_role_iff demo_db_def single_def
      pg_insert_def commit_def user_roles_visible user_roles_unique_def)

text \<open>
  Claim C6 as amended. No accepted request changes or removes a row of \<^verbatim>\<open>user_roles\<close>:
  the table after the request starts with the table before it. So a role that
  \<^verbatim>\<open>has_role\<close> finds, it finds after the request; and the role that \<^verbatim>\<open>fetchRole\<close> gives
  for a user is the same after the request, unless the request is that user's own insert
  of a further role row.
\<close>

theorem role_rows_kept:
  "exec now uid req d = Inr d' \<longrightarrow>
     take (length (user_roles d)) (user_roles d') = user_roles d
     \<and> (has_role d v r \<longrightarrow> has_role d' v r)
     \<and> (fetchRole d' u = fetchRole d u
         \<or> (\<exists>new. req = Insert_user_roles new \<and> uid = Some u \<and> user_role.user_id new = u))"
  using records_persist(3) [of now uid req d d'] roles_kept [of now uid req d d' v r]
    fetchRole_of_other_unchanged [of now uid req d d' u]
  by blast

theorem role_rows_kept_witness:
  "exec 40 (Some 1) retitle_notice demo_db
     = Inr (demo_db\<lparr>notices := [exam_notice\<lparr>updated_at := 40, resource.title := ''Exam moved''\<rparr>]\<rparr>)
   \<and> has_role demo_db (Some 2) (Some Student)
   \<and> has_role
        (demo_db\<lparr>notices := [exam_notice\<lparr>updated_at := 40, resource.title := ''Exam moved''\<rparr>]\<rparr>)
        (Some 2) (Some Student)
   \<and> fetchRole
        (demo_db\<lparr>notices := [exam_notice\<lparr>updated_at := 40, resource.title := ''Exam moved''\<rparr>]\<rparr>) 2
       = Some Student"
proof -
  let ?d' = "demo_db\<lparr>notices := [exam_notice\<lparr>updated_at := 40, resource.title := ''Exam moved''\<rparr>]\<rparr>"
  have f: "fetchRole demo_db 2 = Some Student"
    by (simp add: fetchRole_rows demo_db_def single_def)
  have n: "\<not> (\<exists>new. retitle_notice = Insert_user_roles new \<and> Some (1::nat) = Some 2
      \<and> user_role.user_id new = 2)"
    by simp
  note t = role_rows_kept [where now = 40 and uid = "Some 1" and req = retitle_notice
      and d = demo_db and d' = ?d' and v = "Some 2" and r = "Some Student" and u = 2]
  from t demo_retitle demo_roles(3) have 1: "has_role ?d' (Some 2) (Some Student)"
    by blast
  from t demo_retitle n have "fetchRole ?d' 2 = fetchRole demo_db 2"
    by blast
  with f have 2: "fetchRole ?d' 2 = Some Student" by simp
  from 1 2 demo_retitle demo_roles(3) show ?thesis by blast
qed


text \<open>
  The code field of the \<^verbatim>\<open>CreateSchool\<close> page is set by its \<^verbatim>\<open>onChange\<close> handler to
  \<^verbatim>\<open>e.target.value.toUpperCase().replace(/[^A-Z0-9]/g, '')\<close>, or by \<^verbatim>\<open>generateCode\<close> to
  characters of \<^verbatim>\<open>'ABCDEFGHIJKLMNOPQRSTUVWXYZ0123456789'\<close>: whatever the input and whatever
  \<^verbatim>\<open>toUpperCase()\<close> makes of it, what the filter leaves is an ASCII string, which trimming
  and normalising again leave as it is.
\<close>

lemma code_field_ascii: "is_ascii (replace_non_A_Z_0_9 s)"
  by (induction s) (auto simp: is_ascii_def replace_non_A_Z_0_9_def Let_def)

lemma code_field_kept:
  "replace_non_A_Z_0_9 (toUpperCase (trim (replace_non_A_Z_0_9 s))) = replace_non_A_Z_0_9 s"
proof -
  have keep: "dropWhile is_space xs = xs"
    if "\<forall>c\<in>set xs. (65 \<le> (of_char c :: nat) \<and> (of_char c :: nat) \<le> 90)
          \<or> (48 \<le> (of_char c :: nat) \<and> (of_char c :: nat) \<le> 57)" for xs
    using that by (cases xs) (auto simp: is_space_def)
  have chars: "\<forall>c\<in>set (replace_non_A_Z_0_9 s).
      (65 \<le> (of_char c :: nat) \<and> (of_char c :: nat) \<le> 90)
      \<or> (48 \<le> (of_char c :: nat) \<and> (of_char c :: nat) \<le> 57)"
    by (auto simp: replace_non_A_Z_0_9_def Let_def)
  have t: "trim (replace_non_A_Z_0_9 s) = replace_non_A_Z_0_9 s"
    using keep [OF chars] keep [of "rev (replace_non_A_Z_0_9 s)"] chars
    by (simp add: trim_def)
  have u: "toUpperCase xs = xs"
    if "\<forall>c\<in>set xs. (65 \<le> (of_char c :: nat) \<and> (of_char c :: nat) \<le> 90)
          \<or> (48 \<le> (of_char c :: nat) \<and> (of_char c :: nat) \<le> 57)" for xs
    using that by (induction xs) (auto simp: toUpperCase_def Let_def)
  have f: "replace_non_A_Z_0_9 (replace_non_A_Z_0_9 s) = replace_non_A_Z_0_9 s"
    by (simp add: replace_non_A_Z_0_9_def)
  show ?thesis by (simp add: t u [OF chars] f)
qed


section \<open>Creating a school\<close>

text \<open>
  Claim C7. Two admins submit the form of the \<^verbatim>\<open>CreateSchool\<close> page with names and codes
  that are ASCII strings (the code field of the page holds nothing else, see
  \<open>code_field_ascii\<close>) and pass its length checks, the two codes being the same code after
  \<^verbatim>\<open>createSchool\<close> has normalised them. In a database in which the code is taken, the submission fails and
  the toast says that the code is taken, which is not the text shown for another error.
  In a database in which the code is free, the first submission (its new \<^verbatim>\<open>id\<close> being
  fresh) creates the school, and the second one, run after it, fails with that toast and
  changes nothing: of two creations with one code exactly one succeeds, in whichever
  order the unique index admits them.
\<close>

theorem duplicate_code_error:
  assumes "has_role d (Some u1) (Some Admin)" and "has_role d (Some u2) (Some Admin)"
    and "3 \<le> length (trim name1)" and "3 \<le> length (trim name2)"
    and "4 \<le> length (trim code1)" and "4 \<le> length (trim code2)"
    and "replace_non_A_Z_0_9 (toUpperCase (trim code1)) = code"
    and "replace_non_A_Z_0_9 (toUpperCase (trim code2)) = code"
    and "is_ascii name1" and "is_ascii name2" and "is_ascii code1" and "is_ascii code2"
  shows "(list_ex (\<lambda>s. school.school_code s = code) (schools d) \<longrightarrow>
           handleSubmit t2 t2' id2 (Some u2) name2 code2 d
           = (\<lparr>variant = Some ''destructive'', toast.title = ''Failed to create school'',
               toast.description =
                 ''This school code is already taken. Please choose a different one.''\<rparr>, d))
       \<and> (\<not> list_ex (\<lambda>s. school.school_code s = code) (schools d)
          \<and> \<not> list_ex (\<lambda>s. school.id_col s = id1) (schools d) \<longrightarrow>
           (\<exists>d1. handleSubmit t1 t1' id1 (Some u1) name1 code1 d
                  = (\<lparr>variant = None, toast.title = ''School created!'',
                      toast.description = ''Your school has been set up successfully.''\<rparr>, d1)
                \<and> handleSubmit t2 t2' id2 (Some u2) name2 code2 d1
                  = (\<lparr>variant = Some ''destructive'', toast.title = ''Failed to create school'',
                      toast.description =
                        ''This school code is already taken. Please choose a different one.''\<rparr>,
                     d1)))
       \<and> (\<not> has_role d (Some u3) (Some Admin) \<longrightarrow>
           handleSubmit t2 t2' id2 (Some u3) name2 code2 d
           = (\<lparr>variant = Some ''destructive'', toast.title = ''Failed to create school'',
               toast.description = message (RlsViolation ''schools'')\<rparr>, d))
       \<and> message (RlsViolation ''schools'')
           \<noteq> ''This school code is already taken. Please choose a different one.''"
proof -
  have taken: "handleSubmit t2 t2' id2 (Some u2) name2 code2 x
           = (\<lparr>variant = Some ''destructive'', toast.title = ''Failed to create school'',
               toast.description =
                 ''This school code is already taken. Please choose a different one.''\<rparr>, x)"
    if "has_role x (Some u2) (Some Admin)" "list_ex (\<lambda>s. school.school_code s = code) (schools x)"
    for x
  proof -
    from createSchool_taken [of x u2 "trim code2" t2 t2' id2 "trim name2"] that assms(8)
    obtain c where "createSchool t2 t2' id2 (Some u2) (trim name2) (trim code2) x
           = (Some (PostgrestError (UniqueViolation c)), None, x)"
      by auto
    with assms(4,6) show ?thesis
      by (simp add: handleSubmit_def duplicate_in_message(1) del: message.simps)
  qed
  have created: "\<exists>d1. handleSubmit t1 t1' id1 (Some u1) name1 code1 d
                  = (\<lparr>variant = None, toast.title = ''School created!'',
                      toast.description = ''Your school has been set up successfully.''\<rparr>, d1)
                \<and> handleSubmit t2 t2' id2 (Some u2) name2 code2 d1
                  = (\<lparr>variant = Some ''destructive'', toast.title = ''Failed to create school'',
                      toast.description =
                        ''This school code is already taken. Please choose a different one.''\<rparr>,
                     d1)"
    if "\<not> list_ex (\<lambda>s. school.school_code s = code) (schools d)"
      "\<not> list_ex (\<lambda>s. school.id_col s = id1) (schools d)"
  proof -
    from createSchool_free [of d u1 "trim code1" id1 t1 t1' "trim name1"] that assms(1,7)
    obtain data d1 where c: "createSchool t1 t1' id1 (Some u1) (trim name1) (trim code1) d
           = (None, data, d1)"
      and r: "user_roles d1 = user_roles d"
      and s: "list_ex (\<lambda>s. school.school_code s = code) (schools d1)"
      by auto
    from c assms(3,5) have "handleSubmit t1 t1' id1 (Some u1) name1 code1 d
                  = (\<lparr>variant = None, toast.title = ''School created!'',
                      toast.description = ''Your school has been set up successfully.''\<rparr>, d1)"
      by (simp add: handleSubmit_def)
    moreover have "has_role d1 (Some u2) (Some Admin)"
      using assms(2) r by (simp add: has_role_def)
    ultimately show ?thesis using taken [OF _ s] by blast
  qed
  have denied: "handleSubmit t2 t2' id2 (Some u3) name2 code2 d
           = (\<lparr>variant = Some ''destructive'', toast.title = ''Failed to create school'',
               toast.description = message (RlsViolation ''schools'')\<rparr>, d)"
    if "\<not> has_role d (Some u3) (Some Admin)"
  proof -
    have "createSchool t2 t2' id2 (Some u3) (trim name2) (trim code2) d
        = (Some (PostgrestError (RlsViolation ''schools'')), None, d)"
      using that
      by (simp add: createSchool_def Let_def pg_insert_def commit_def schools_visible)
    with assms(4,6) show ?thesis
      using duplicate_in_message(2)
      by (simp add: handleSubmit_def del: message.simps includes_str.simps)
  qed
  have other: "message (RlsViolation ''schools'')
           \<noteq> ''This school code is already taken. Please choose a different one.''"
    by simp
  from taken [OF assms(2)] created denied other show ?thesis by blast
qed

theorem duplicate_code_error_witness:
  "has_role demo_db (Some 1) (Some Admin) \<and> has_role demo_db (Some 4) (Some Admin)
   \<and> 3 \<le> length (trim ''Third School'') \<and> 3 \<le> length (trim ''Another'')
   \<and> 4 \<le> length (trim ''SPRING24'') \<and> 4 \<le> length (trim ''FRESH001'')
   \<and> is_ascii ''Third School'' \<and> is_ascii ''Another''
   \<and> is_ascii ''SPRING24'' \<and> is_ascii ''FRESH001''
   \<and> list_ex (\<lambda>s. school.school_code s = ''SPRING24'') (schools demo_db)
   \<and> handleSubmit 40 41 103 (Some 4) ''Another'' ''SPRING24'' demo_db
       = (\<lparr>variant = Some ''destructive'', toast.title = ''Failed to create school'',
           toast.description =
             ''This school code is already taken. Please choose a different one.''\<rparr>, demo_db)
   \<and> \<not> list_ex (\<lambda>s. school.school_code s = ''FRESH001'') (schools demo_db)
   \<and> \<not> list_ex (\<lambda>s. school.id_col s = 102) (schools demo_db)
   \<and> (\<exists>d1. handleSubmit 40 41 102 (Some 1) ''Third School'' ''FRESH001'' demo_db
              = (\<lparr>variant = None, toast.title = ''School created!'',
                  toast.description = ''Your school has been set up successfully.''\<rparr>, d1)
            \<and> handleSubmit 42 43 103 (Some 4) ''Another'' ''FRESH001'' d1
              = (\<lparr>variant = Some ''destructive'', toast.title = ''Failed to create school'',
                  toast.description =
                    ''This school code is already taken. Please choose a different one.''\<rparr>,
                 d1))"
proof -
  have t: "trim ''Third School'' = ''Third School''" "trim ''Another'' = ''Another''"
    "trim ''SPRING24'' = ''SPRING24''" "trim ''FRESH001'' = ''FRESH001''"
    by (simp_all add: trim_no_space is_space_def)
  have l: "3 \<le> length (trim ''Third School'')" "3 \<le> length (trim ''Another'')"
    "4 \<le> length (trim ''SPRING24'')" "4 \<le> length (trim ''FRESH001'')"
    by (simp_all add: t)
  have n: "replace_non_A_Z_0_9 (toUpperCase (trim ''SPRING24'')) = ''SPRING24''"
    "replace_non_A_Z_0_9 (toUpperCase (trim ''FRESH001'')) = ''FRESH001''"
    by (simp_all add: t replace_non_A_Z_0_9_def toUpperCase_def Let_def)
  have s: "list_ex (\<lambda>s. school.school_code s = ''SPRING24'') (schools demo_db)"
    "\<not> list_ex (\<lambda>s. school.school_code s = ''FRESH001'') (schools demo_db)"
    "\<not> list_ex (\<lambda>s. school.id_col s = 102) (schools demo_db)"
    by (simp_all add: demo_tables demo_rows) (simp_all add: demo_defs)
  have c: "is_ascii ''Third School''" "is_ascii ''Another''"
    "is_ascii ''SPRING24''" "is_ascii ''FRESH001''"
    by (simp_all add: is_ascii_def)
  note a = duplicate_code_error [OF demo_roles(1,2) l(1,2) l(3) l(3) n(1) n(1) c(1,2) c(3) c(3),
      where ?t2.0 = 40 and t2' = 41 and ?id2.0 = 103]
  note b = duplicate_code_error [OF demo_roles(1,2) l(1,2) l(4) l(4) n(2) n(2) c(1,2) c(4) c(4),
      where ?t1.0 = 40 and t1' = 41 and ?id1.0 = 102 and ?t2.0 = 42 and t2' = 43 and ?id2.0 = 103]
  from a s(1) have 1: "handleSubmit 40 41 103 (Some 4) ''Another'' ''SPRING24'' demo_db
       = (\<lparr>variant = Some ''destructive'', toast.title = ''Failed to create school'',
           toast.description =
             ''This school code is already taken. Please choose a different one.''\<rparr>, demo_db)"
    by blast
  from b s(2,3) have 2: "\<exists>d1. handleSubmit 40 41 102 (Some 1) ''Third School'' ''FRESH001'' demo_db
              = (\<lparr>variant = None, toast.title = ''School created!'',
                  toast.description = ''Your school has been set up successfully.''\<rparr>, d1)
            \<and> handleSubmit 42 43 103 (Some 4) ''Another'' ''FRESH001'' d1
              = (\<lparr>variant = Some ''destructive'', toast.title = ''Failed to create school'',
                  toast.description =
                    ''This school code is already taken. Please choose a different one.''\<rparr>,
                 d1)"
    by blast
  from 1 2 demo_roles(1,2) l c s show ?thesis by blast
qed


section \<open>Timestamps\<close>

text \<open>
  Claim C8 says that \<^verbatim>\<open>updated_at >= created_at\<close> holds in every reachable state. The
  defaults of the two columns apply only to an \<^verbatim>\<open>INSERT\<close> that does not name them, and no
  policy, constraint or trigger looks at the values a statement gives: the run
  \<open>backdated_run\<close> is accepted and ends in a database with a notice whose \<^verbatim>\<open>updated_at\<close>
  is earlier than its \<^verbatim>\<open>created_at\<close>.
\<close>

theorem timestamps_counterexample:
  "\<not> isl (run backdated_run empty_db)
   \<and> \<not> stamps_ordered (projr (run backdated_run empty_db))"
  by (simp add: backdated_run_def empty_db_def pg_insert_def commit_def user_roles_visible
      user_roles_unique_def schools_visible schools_unique_def has_role_iff notices_visible
      is_school_admin_iff pkey_unique_def stamps_ordered_def)

text \<open>
  Claim C8 as amended. An accepted update of one of the five tables stores every row it
  works on as the trigger returns it, with \<^verbatim>\<open>updated_at\<close> the clock reading of the
  statement, whatever the statement assigns, and \<^verbatim>\<open>created_at\<close> as the statement leaves
  it; the other rows stay. So of two updates at strictly increasing clock readings the
  later one stores the greater \<^verbatim>\<open>updated_at\<close>, and an updated row has
  \<^verbatim>\<open>updated_at >= created_at\<close> when its \<^verbatim>\<open>created_at\<close> is not later than the clock reading.
  A row inserted with the defaults has equal timestamps.
\<close>

theorem updated_at_refreshed:
  "(exec now uid (Update_schools f1 a1) d = Inr d' \<longrightarrow>
      schools d' = map (\<lambda>r. if targeted schools_table UPDATE d uid f1 r
                             then update_updated_at_column now (a1 r) else r) (schools d))
   \<and> (exec now uid (Update_profiles f2 a2) d = Inr d' \<longrightarrow>
      profiles d' = map (\<lambda>r. if targeted profiles_table UPDATE d uid f2 r
                              then update_updated_at_column now (a2 r) else r) (profiles d))
   \<and> (exec now uid (Update_scholarships f3 a3) d = Inr d' \<longrightarrow>
      scholarships d' = map (\<lambda>r. if targeted scholarships_table UPDATE d uid f3 r
                                  then update_updated_at_column now (a3 r) else r)
                          (scholarships d))
   \<and> (exec now uid (Update_fees f4 a4) d = Inr d' \<longrightarrow>
      fees d' = map (\<lambda>r. if targeted fees_table UPDATE d uid f4 r
                          then update_updated_at_column now (a4 r) else r) (fees d))
   \<and> (exec now uid (Update_notices f5 a5) d = Inr d' \<longrightarrow>
      notices d' = map (\<lambda>r. if targeted notices_table UPDATE d uid f5 r
                             then update_updated_at_column now (a5 r) else r) (notices d))
   \<and> updated_at (update_updated_at_column now x) = now
   \<and> created_at (update_updated_at_column now x) = created_at x
   \<and> (now1 < now2 \<longrightarrow> updated_at (update_updated_at_column now1 x)
                        < updated_at (update_updated_at_column now2 y))
   \<and> (created_at x \<le> now \<longrightarrow> created_at (update_updated_at_column now x)
                                \<le> updated_at (update_updated_at_column now x))
   \<and> created_at (default_timestamps now x) = updated_at (default_timestamps now x)"
  using exec_update_rows [of now uid _ _ d d']
  by (simp add: default_timestamps_def del: exec.simps)

theorem updated_at_refreshed_witness:
  "exec 40 (Some 1) retitle_notice demo_db
     = Inr (demo_db\<lparr>notices := [exam_notice\<lparr>updated_at := 40, resource.title := ''Exam moved''\<rparr>]\<rparr>)
   \<and> notices (demo_db\<lparr>notices := [exam_notice\<lparr>updated_at := 40, resource.title := ''Exam moved''\<rparr>]\<rparr>)
       = map (\<lambda>r. if targeted notices_table UPDATE demo_db (Some 1) (\<lambda>r. resource.id_col r = 300) r
                   then update_updated_at_column 40 (r\<lparr>resource.title := ''Exam moved''\<rparr>) else r)
           (notices demo_db)
   \<and> (40::nat) < 50
   \<and> updated_at (update_updated_at_column 40 exam_notice)
       < updated_at (update_updated_at_column 50 exam_notice)
   \<and> created_at exam_notice \<le> 40
   \<and> created_at (update_updated_at_column 40 exam_notice)
       \<le> updated_at (update_updated_at_column 40 exam_notice)"
proof -
  have h: "(40::nat) < 50" "created_at exam_notice \<le> 40"
    by (simp_all add: exam_notice_def)
  note t = updated_at_refreshed [where now = 40 and uid = "Some 1" and d = demo_db
      and ?f5.0 = "\<lambda>r. resource.id_col r = 300"
      and ?a5.0 = "\<lambda>r. r\<lparr>resource.title := ''Exam moved''\<rparr>"
      and d' = "demo_db\<lparr>notices := [exam_notice\<lparr>updated_at := 40, resource.title := ''Exam moved''\<rparr>]\<rparr>"
      and x = exam_notice and y = exam_notice and ?now1.0 = 40 and ?now2.0 = 50]
  from t demo_retitle [unfolded retitle_notice_def] h demo_retitle show ?thesis
    by blast
qed


section \<open>No deletion of schools, profiles and roles\<close>

text \<open>
  Claim C9. \<^verbatim>\<open>schools\<close>, \<^verbatim>\<open>profiles\<close> and \<^verbatim>\<open>user_roles\<close> have row level security enabled
  and no \<^verbatim>\<open>DELETE\<close> policy: for every caller, the owning admin included, no row passes
  for \<^verbatim>\<open>DELETE\<close> and a delete request leaves the database as it was. Through every
  accepted request of the client API each school stays, at its place and with its
  \<^verbatim>\<open>admin_id\<close>, each profile with its \<^verbatim>\<open>user_id\<close>, and each role row as it is.
\<close>

theorem no_deletion_of_identity_or_tenant_records:
  "\<not> allow schools_policies DELETE d uid s
   \<and> \<not> allow profiles_policies DELETE d uid p
   \<and> \<not> allow user_roles_policies DELETE d uid r
   \<and> exec now uid (Delete_schools flt_s) d = Inr d
   \<and> exec now uid (Delete_profiles flt_p) d = Inr d
   \<and> exec now uid (Delete_user_roles flt_r) d = Inr d
   \<and> (exec now uid req d = Inr d' \<longrightarrow>
        take (length (schools d)) (map admin_id (schools d')) = map admin_id (schools d)
        \<and> take (length (profiles d)) (map profile.user_id (profiles d'))
            = map profile.user_id (profiles d)
        \<and> take (length (user_roles d)) (user_roles d') = user_roles d)"
  using records_persist [of now uid req d d']
  by (simp add: allow_simps schools_visible profiles_visible user_roles_visible)

theorem no_deletion_of_identity_or_tenant_records_witness:
  "\<not> allow schools_policies DELETE demo_db (Some 1) springfield
   \<and> exec 40 (Some 1) (Delete_schools (\<lambda>r. True)) demo_db = Inr demo_db
   \<and> exec 40 (Some 2) (Delete_profiles (\<lambda>r. profile.user_id r = 2)) demo_db = Inr demo_db
   \<and> exec 40 (Some 2) (Delete_user_roles (\<lambda>r. user_role.user_id r = 2)) demo_db = Inr demo_db
   \<and> take (length (schools demo_db)) (map admin_id (schools demo_db)) = map admin_id (schools demo_db)"
proof -
  have e: "exec 40 (Some 1) (Delete_schools (\<lambda>r. True)) demo_db = Inr demo_db"
    using no_deletion_of_identity_or_tenant_records [of demo_db "Some 1" springfield _ _ 40 "\<lambda>r. True"]
    by blast
  from no_deletion_of_identity_or_tenant_records [of demo_db "Some 1" springfield _ _ 40
      "\<lambda>r. True" _ _ "Delete_schools (\<lambda>r. True)" demo_db]
    no_deletion_of_identity_or_tenant_records [of demo_db "Some 2" _ _ _ 40
      _ "\<lambda>r. profile.user_id r = 2" "\<lambda>r. user_role.user_id r = 2"] e
  show ?thesis by blast
qed


section \<open>No cross-tenant re-homing\<close>

text \<open>
  Claim C10. The \<^verbatim>\<open>UPDATE\<close> policies of \<^verbatim>\<open>scholarships\<close>, \<^verbatim>\<open>fees\<close> and \<^verbatim>\<open>notices\<close> have
  a \<^verbatim>\<open>USING\<close> clause only, so the admin predicate is the check of the updated row too.
  An update that gives a row it works on the code of a school the caller does not
  administer is rejected. And when an update is accepted, the rows of a school whose
  admin is somebody else (school codes being unique) are the same after it as before: no
  row has been moved into that school.
\<close>

theorem no_cross_tenant_rehoming:
  "check_ok scholarships_policies UPDATE d uid (new_s :: scholarship)
     = is_school_admin d uid (Some (resource.school_code new_s))
   \<and> check_ok fees_policies UPDATE d uid (new_f :: fee)
     = is_school_admin d uid (Some (resource.school_code new_f))
   \<and> check_ok notices_policies UPDATE d uid (new_n :: notice)
     = is_school_admin d uid (Some (resource.school_code new_n))
   \<and> (rs \<in> set (scholarships d) \<and> targeted scholarships_table UPDATE d uid flt_s rs
        \<and> \<not> is_school_admin d uid (Some (resource.school_code (asg_s rs)))
        \<longrightarrow> (\<exists>e. exec now uid (Update_scholarships flt_s asg_s) d = Inl e))
   \<and> (rf \<in> set (fees d) \<and> targeted fees_table UPDATE d uid flt_f rf
        \<and> \<not> is_school_admin d uid (Some (resource.school_code (asg_f rf)))
        \<longrightarrow> (\<exists>e. exec now uid (Update_fees flt_f asg_f) d = Inl e))
   \<and> (rn \<in> set (notices d) \<and> targeted notices_table UPDATE d uid flt_n rn
        \<and> \<not> is_school_admin d uid (Some (resource.school_code (asg_n rn)))
        \<longrightarrow> (\<exists>e. exec now uid (Update_notices flt_n asg_n) d = Inl e))
   \<and> (s \<in> set (schools d) \<and> distinct (map school.school_code (schools d))
        \<and> uid \<noteq> Some (admin_id s) \<longrightarrow>
        (exec now uid (Update_scholarships flt_s asg_s) d = Inr d' \<longrightarrow>
           filter (\<lambda>r. resource.school_code r = school.school_code s) (scholarships d')
           = filter (\<lambda>r. resource.school_code r = school.school_code s) (scholarships d))
      \<and> (exec now uid (Update_fees flt_f asg_f) d = Inr d' \<longrightarrow>
           filter (\<lambda>r. resource.school_code r = school.school_code s) (fees d')
           = filter (\<lambda>r. resource.school_code r = school.school_code s) (fees d))
      \<and> (exec now uid (Update_notices flt_n asg_n) d = Inr d' \<longrightarrow>
           filter (\<lambda>r. resource.school_code r = school.school_code s) (notices d')
           = filter (\<lambda>r. resource.school_code r = school.school_code s) (notices d)))"
proof -
  have rej_s: "\<exists>e. exec now uid (Update_scholarships flt_s asg_s) d = Inl e"
    if "rs \<in> set (scholarships d)" "targeted scholarships_table UPDATE d uid flt_s rs"
      "\<not> is_school_admin d uid (Some (resource.school_code (asg_s rs)))"
    using pg_update_rejected [of rs "scholarships d" scholarships_table d uid flt_s now asg_s] that
    by (auto simp: scholarships_visible commit_def)
  have rej_f: "\<exists>e. exec now uid (Update_fees flt_f asg_f) d = Inl e"
    if "rf \<in> set (fees d)" "targeted fees_table UPDATE d uid flt_f rf"
      "\<not> is_school_admin d uid (Some (resource.school_code (asg_f rf)))"
    using pg_update_rejected [of rf "fees d" fees_table d uid flt_f now asg_f] that
    by (auto simp: fees_visible commit_def)
  have rej_n: "\<exists>e. exec now uid (Update_notices flt_n asg_n) d = Inl e"
    if "rn \<in> set (notices d)" "targeted notices_table UPDATE d uid flt_n rn"
      "\<not> is_school_admin d uid (Some (resource.school_code (asg_n rn)))"
    using pg_update_rejected [of rn "notices d" notices_table d uid flt_n now asg_n] that
    by (auto simp: notices_visible commit_def)
  have keep_s: "filter (\<lambda>r. resource.school_code r = school.school_code s) (scholarships d')
           = filter (\<lambda>r. resource.school_code r = school.school_code s) (scholarships d)"
    if "s \<in> set (schools d)" "distinct (map school.school_code (schools d))"
      "uid \<noteq> Some (admin_id s)" "exec now uid (Update_scholarships flt_s asg_s) d = Inr d'"
  proof -
    from that(4) obtain rows where
      r: "pg_update scholarships_table now d uid flt_s asg_s (scholarships d) = Inr rows"
      and d': "d' = d\<lparr>scholarships := rows\<rparr>"
      by (auto dest!: commit_Inr)
    from resource_update_accepted(2) [OF _ _ _ r that(1-3)] d' show ?thesis
      by (simp add: scholarships_visible)
  qed
  have keep_f: "filter (\<lambda>r. resource.school_code r = school.school_code s) (fees d')
           = filter (\<lambda>r. resource.school_code r = school.school_code s) (fees d)"
    if "s \<in> set (schools d)" "distinct (map school.school_code (schools d))"
      "uid \<noteq> Some (admin_id s)" "exec now uid (Update_fees flt_f asg_f) d = Inr d'"
  proof -
    from that(4) obtain rows where
      r: "pg_update fees_table now d uid flt_f asg_f (fees d) = Inr rows"
      and d': "d' = d\<lparr>fees := rows\<rparr>"
      by (auto dest!: commit_Inr)
    from resource_update_accepted(2) [OF _ _ _ r that(1-3)] d' show ?thesis
      by (simp add: fees_visible)
  qed
  have keep_n: "filter (\<lambda>r. resource.school_code r = school.school_code s) (notices d')
           = filter (\<lambda>r. resource.school_code r = school.school_code s) (notices d)"
    if "s \<in> set (schools d)" "distinct (map school.school_code (schools d))"
      "uid \<noteq> Some (admin_id s)" "exec now uid (Update_notices flt_n asg_n) d = Inr d'"
  proof -
    from that(4) obtain rows where
      r: "pg_update notices_table now d uid flt_n asg_n (notices d) = Inr rows"
      and d': "d' = d\<lparr>notices := rows\<rparr>"
      by (auto dest!: commit_Inr)
    from resource_update_accepted(2) [OF _ _ _ r that(1-3)] d' show ?thesis
      by (simp add: notices_visible)
  qed
  have chk: "check_ok scholarships_policies UPDATE d uid new_s
       = is_school_admin d uid (Some (resource.school_code new_s))
     \<and> check_ok fees_policies UPDATE d uid new_f
       = is_school_admin d uid (Some (resource.school_code new_f))
     \<and> check_ok notices_policies UPDATE d uid new_n
       = is_school_admin d uid (Some (resource.school_code new_n))"
    by (simp add: scholarships_visible fees_visible notices_visible)
  from chk rej_s rej_f rej_n keep_s keep_f keep_n show ?thesis by blast
qed

theorem no_cross_tenant_rehoming_witness:
  "exam_notice \<in> set (notices demo_db)
   \<and> targeted notices_table UPDATE demo_db (Some 1) (\<lambda>r. resource.id_col r = 300) exam_notice
   \<and> \<not> is_school_admin demo_db (Some 1)
        (Some (resource.school_code (exam_notice\<lparr>resource.school_code := ''SHELBY24''\<rparr>)))
   \<and> exec 40 (Some 1) move_notice demo_db = Inl (RlsViolation ''notices'')
   \<and> shelbyville \<in> set (schools demo_db) \<and> distinct (map school.school_code (schools demo_db))
   \<and> Some 1 \<noteq> Some (admin_id shelbyville)
   \<and> exec 40 (Some 1) retitle_notice demo_db
       = Inr (demo_db\<lparr>notices := [exam_notice\<lparr>updated_at := 40, resource.title := ''Exam moved''\<rparr>]\<rparr>)
   \<and> filter (\<lambda>r. resource.school_code r = school.school_code shelbyville)
        (notices (demo_db\<lparr>notices := [exam_notice\<lparr>updated_at := 40, resource.title := ''Exam moved''\<rparr>]\<rparr>))
       = filter (\<lambda>r. resource.school_code r = school.school_code shelbyville) (notices demo_db)"
proof -
  have tg: "exam_notice \<in> set (notices demo_db)
     \<and> targeted notices_table UPDATE demo_db (Some 1) (\<lambda>r. resource.id_col r = 300) exam_notice
     \<and> \<not> is_school_admin demo_db (Some 1)
        (Some (resource.school_code (exam_notice\<lparr>resource.school_code := ''SHELBY24''\<rparr>)))"
    by (simp add: demo_tables targeted_def notices_visible demo_rows demo_admins)
      (simp add: exam_notice_def)
  have mv: "exec 40 (Some 1) move_notice demo_db = Inl (RlsViolation ''notices'')"
    by (simp add: move_notice_def demo_tables pg_update_def targeted_def notices_visible
        demo_rows demo_admins commit_def) (simp add: exam_notice_def)
  have sh: "shelbyville \<in> set (schools demo_db) \<and> distinct (map school.school_code (schools demo_db))
     \<and> Some (1::nat) \<noteq> Some (admin_id shelbyville)"
    by (simp add: demo_tables demo_rows)
  have rt: "exec 40 (Some 1) retitle_notice demo_db
       = Inr (demo_db\<lparr>notices := [exam_notice\<lparr>updated_at := 40, resource.title := ''Exam moved''\<rparr>]\<rparr>)"
    by (simp add: retitle_notice_def demo_tables pg_update_def targeted_def notices_visible
        demo_rows demo_admins commit_def pkey_unique_def update_updated_at_column_def)
      (simp add: exam_notice_def)
  from no_cross_tenant_rehoming [where d = demo_db and uid = "Some 1" and rn = exam_notice
      and flt_n = "\<lambda>r. resource.id_col r = 300"
      and asg_n = "\<lambda>r. r\<lparr>resource.school_code := ''SHELBY24''\<rparr>" and now = 40]
    tg have "\<exists>e. exec 40 (Some 1) move_notice demo_db = Inl e"
    unfolding move_notice_def by blast
  moreover from no_cross_tenant_rehoming [where d = demo_db and uid = "Some 1"
      and flt_n = "\<lambda>r. resource.id_col r = 300"
      and asg_n = "\<lambda>r. r\<lparr>resource.title := ''Exam moved''\<rparr>" and now = 40
      and s = shelbyville
      and d' = "demo_db\<lparr>notices := [exam_notice\<lparr>updated_at := 40, resource.title := ''Exam moved''\<rparr>]\<rparr>"]
    sh rt
  have "filter (\<lambda>r. resource.school_code r = school.school_code shelbyville)
        (notices (demo_db\<lparr>notices := [exam_notice\<lparr>updated_at := 40, resource.title := ''Exam moved''\<rparr>]\<rparr>))
       = filter (\<lambda>r. resource.school_code r = school.school_code shelbyville) (notices demo_db)"
    unfolding retitle_notice_def by blast
  ultimately show ?thesis using tg mv sh rt by blast
qed


end
